theory Spec2Isabelle
  imports Main "HOL-Library.Multiset" "HOL-Library.Sublist"
begin

section \<open>Time values and performance entries\<close>

text \<open>
  Modelled from the spec: \<^verbatim>\<open>HighResTimeStamp\<close> and \<^verbatim>\<open>HighResDuration\<close> are declared outside
  \<^verbatim>\<open>NativePerformance.cpp\<close>. The spec describes a timestamp as monotonic, comparable and
  subtractable to yield a duration, and a measure's duration as \<open>endTime - startTime\<close> with
  negative values preserved. Both are integers here (a count of clock ticks); the code under
  study only adds a duration to a timestamp, subtracts two timestamps and compares them.
\<close>

type_synonym HighResTimeStamp = int
type_synonym HighResDuration = int

definition fromDOMHighResTimeStamp :: "int \<Rightarrow> HighResTimeStamp" where
  "fromDOMHighResTimeStamp t = t"

definition HighResDuration_zero :: HighResDuration where
  "HighResDuration_zero = 0"

text \<open>
  Modelled from the spec: the entry kinds (section 3, "tagged union over kinds: Mark,
  Measure, EventTiming, ResourceTiming"). The variant \<^verbatim>\<open>PerformanceEntry\<close> is declared outside
  the source file; the file reads the common fields \<^verbatim>\<open>name\<close>, \<^verbatim>\<open>entryType\<close>, \<^verbatim>\<open>startTime\<close>,
  \<^verbatim>\<open>duration\<close> of every alternative and the extra fields of the event and resource
  alternatives. The entry type is fixed by the alternative.
\<close>

datatype PerformanceEntryType = MARK | MEASURE | EVENT | RESOURCE

datatype PerformanceEntry =
    PerformanceMark
      (name: string) (startTime: HighResTimeStamp) (duration: HighResDuration)
  | PerformanceMeasure
      (name: string) (startTime: HighResTimeStamp) (duration: HighResDuration)
  | PerformanceEventTiming
      (name: string) (startTime: HighResTimeStamp) (duration: HighResDuration)
      (processingStart: HighResTimeStamp) (processingEnd: HighResTimeStamp)
      (interactionId: int)
  | PerformanceResourceTiming
      (name: string) (startTime: HighResTimeStamp) (duration: HighResDuration)
      (fetchStart: HighResTimeStamp) (requestStart: HighResTimeStamp)
      (connectStart: HighResTimeStamp) (connectEnd: HighResTimeStamp)
      (responseStart: HighResTimeStamp) (responseEnd: HighResTimeStamp)
      (responseStatus: int)

fun entryType :: "PerformanceEntry \<Rightarrow> PerformanceEntryType" where
  "entryType (PerformanceMark _ _ _) = MARK"
| "entryType (PerformanceMeasure _ _ _) = MEASURE"
| "entryType (PerformanceEventTiming _ _ _ _ _ _) = EVENT"
| "entryType (PerformanceResourceTiming _ _ _ _ _ _ _ _ _ _) = RESOURCE"

text \<open>
  The bridge shape \<^verbatim>\<open>NativePerformanceEntry\<close>: the four common fields, and the event and
  resource fields, which stay unset unless the entry is of that alternative. The fields carry
  the prefix \<open>native_\<close> because the entry's own selectors already use the plain names.
\<close>

record NativePerformanceEntry =
  native_name :: string
  native_entryType :: PerformanceEntryType
  native_startTime :: HighResTimeStamp
  native_duration :: HighResDuration
  native_processingStart :: "HighResTimeStamp option"
  native_processingEnd :: "HighResTimeStamp option"
  native_interactionId :: "int option"
  native_fetchStart :: "HighResTimeStamp option"
  native_requestStart :: "HighResTimeStamp option"
  native_connectStart :: "HighResTimeStamp option"
  native_connectEnd :: "HighResTimeStamp option"
  native_responseStart :: "HighResTimeStamp option"
  native_responseEnd :: "HighResTimeStamp option"
  native_responseStatus :: "int option"

section \<open>The collaborators: entry buffers, reporter, observers\<close>

text \<open>
  Modelled from the spec: the entry buffer of section 4.1, which is not part of the source
  file. \<open>insert\<close> appends to the tail and, when the size exceeds the capacity, removes the head
  and increments the drop count; the queries keep insertion order; \<open>clear\<close> keeps the drop
  count.
\<close>

record PerformanceEntryBuffer =
  entries :: "PerformanceEntry list"
  capacity :: nat
  droppedCount :: nat

definition buffer_insert :: "PerformanceEntryBuffer \<Rightarrow> PerformanceEntry \<Rightarrow> PerformanceEntryBuffer" where
  "buffer_insert b e =
     (let es = entries b @ [e]
      in if length es > capacity b
         then b\<lparr>entries := tl es, droppedCount := droppedCount b + 1\<rparr>
         else b\<lparr>entries := es\<rparr>)"

definition buffer_queryAll :: "PerformanceEntryBuffer \<Rightarrow> PerformanceEntry list" where
  "buffer_queryAll b = entries b"

definition buffer_queryByName :: "PerformanceEntryBuffer \<Rightarrow> string \<Rightarrow> PerformanceEntry list" where
  "buffer_queryByName b n = filter (\<lambda>e. name e = n) (entries b)"

definition buffer_clear :: "PerformanceEntryBuffer \<Rightarrow> PerformanceEntryBuffer" where
  "buffer_clear b = b\<lparr>entries := []\<rparr>"

definition buffer_clearByName :: "PerformanceEntryBuffer \<Rightarrow> string \<Rightarrow> PerformanceEntryBuffer" where
  "buffer_clearByName b n = b\<lparr>entries := filter (\<lambda>e. name e \<noteq> n) (entries b)\<rparr>"

text \<open>
  Modelled from the spec: the observer of sections 3 and 4.4 (\<^verbatim>\<open>PerformanceObserver\<close>, not part
  of the source file): a set of subscribed entry types, a per-type configuration
  \<open>{buffered, durationThreshold}\<close>, a pending-records queue with an implementation-defined
  bound, and a counter of the entries that could not be enqueued. The dispatch callback is
  handed to an external scheduler and is left out.
\<close>

record PerformanceObserverObserveSingleOptions =
  opt_buffered :: bool
  opt_durationThreshold :: HighResDuration

record PerformanceObserver =
  observedTypes :: "PerformanceEntryType set"
  typeOptions :: "PerformanceEntryType \<Rightarrow> PerformanceObserverObserveSingleOptions option"
  pending :: "PerformanceEntry list"
  queueBound :: nat
  droppedEntriesCount :: nat

text \<open>
  The state the module works on. \<open>forcedCurrentTimeStamp\<close> is the member \<^verbatim>\<open>forcedCurrentTimeStamp_\<close> of
  \<^verbatim>\<open>NativePerformance\<close>. The other fields are the process-wide reporter singleton (modelled from
  the spec, sections 3 and 4.2: one buffer per entry type, the mark-name index, the observer
  registry as the set of observers it routes to) and the observer objects themselves, which
  the code shares through \<^verbatim>\<open>shared_ptr\<close>: an observer is named by its index in \<open>observers\<close>, so
  that a handle and the registry refer to the same object.
\<close>

record PerformanceState =
  forcedCurrentTimeStamp :: "HighResTimeStamp option"
  buffers :: "PerformanceEntryType \<Rightarrow> PerformanceEntryBuffer"
  markIndex :: "string \<Rightarrow> HighResTimeStamp option"
  observerRegistry :: "nat set"
  observers :: "nat \<Rightarrow> PerformanceObserver"

text \<open>
  Modelled from the spec (section 4.4): the registry delivers an entry to every observer
  subscribed to its type, respecting the observer's duration threshold if set (entries whose
  duration is at least the threshold), by appending to the observer's pending queue; an entry
  that cannot be enqueued because the queue hit its bound is counted as dropped.
\<close>

definition passesThreshold :: "PerformanceObserver \<Rightarrow> PerformanceEntry \<Rightarrow> bool" where
  "passesThreshold ob e =
     (case typeOptions ob (entryType e) of
        None \<Rightarrow> True
      | Some opts \<Rightarrow> duration e \<ge> opt_durationThreshold opts)"

definition enqueue :: "PerformanceObserver \<Rightarrow> PerformanceEntry \<Rightarrow> PerformanceObserver" where
  "enqueue ob e =
     (if length (pending ob) < queueBound ob
      then ob\<lparr>pending := pending ob @ [e]\<rparr>
      else ob\<lparr>droppedEntriesCount := droppedEntriesCount ob + 1\<rparr>)"

definition handleEntry :: "PerformanceObserver \<Rightarrow> PerformanceEntry \<Rightarrow> PerformanceObserver" where
  "handleEntry ob e =
     (if entryType e \<in> observedTypes ob \<and> passesThreshold ob e then enqueue ob e else ob)"

definition queuePerformanceEntry :: "PerformanceState \<Rightarrow> PerformanceEntry \<Rightarrow> PerformanceState" where
  "queuePerformanceEntry s e =
     s\<lparr>observers :=
         (\<lambda>i. if i \<in> observerRegistry s then handleEntry (observers s i) e else observers s i)\<rparr>"

text \<open>
  Modelled from the spec (sections 2 and 4.2): recording an entry appends it to the buffer of
  its type and forwards it to the observer registry. \<open>reportMark\<close> builds a zero-duration mark
  and updates the mark-name index (last write wins); \<open>reportMeasure\<close> builds a measure whose
  duration is \<open>endTime - startTime\<close>, not clamped. Both return the stored entry.
\<close>

definition reportEntry :: "PerformanceState \<Rightarrow> PerformanceEntry \<Rightarrow> PerformanceState" where
  "reportEntry s e =
     queuePerformanceEntry
       (s\<lparr>buffers := (buffers s)(entryType e := buffer_insert (buffers s (entryType e)) e)\<rparr>) e"

definition reportMark ::
  "PerformanceState \<Rightarrow> string \<Rightarrow> HighResTimeStamp \<Rightarrow> PerformanceEntry \<times> PerformanceState" where
  "reportMark s n st =
     (let entry = PerformanceMark n st HighResDuration_zero;
          s1 = reportEntry s entry
      in (entry, s1\<lparr>markIndex := (markIndex s1)(n \<mapsto> st)\<rparr>))"

definition reportMeasure ::
  "PerformanceState \<Rightarrow> string \<Rightarrow> HighResTimeStamp \<Rightarrow> HighResTimeStamp
     \<Rightarrow> PerformanceEntry \<times> PerformanceState" where
  "reportMeasure s n st en =
     (let entry = PerformanceMeasure n st (en - st)
      in (entry, reportEntry s entry))"

definition getMarkTime :: "PerformanceState \<Rightarrow> string \<Rightarrow> HighResTimeStamp option" where
  "getMarkTime s n = markIndex s n"

text \<open>
  Modelled from the spec (section 4.2): \<open>getEntries(outSequence, type[, name])\<close> appends the
  matching entries of the given type's buffer, in buffer order; \<open>clearEntries(type[, name])\<close>
  delegates to the buffer, and a cleared mark is absent from the mark-name index.
\<close>

definition PerformanceEntryReporter_getEntries ::
  "PerformanceState \<Rightarrow> PerformanceEntry list \<Rightarrow> PerformanceEntryType \<Rightarrow> PerformanceEntry list" where
  "PerformanceEntryReporter_getEntries s out t = out @ buffer_queryAll (buffers s t)"

definition PerformanceEntryReporter_getEntriesByName ::
  "PerformanceState \<Rightarrow> PerformanceEntry list \<Rightarrow> PerformanceEntryType \<Rightarrow> string
     \<Rightarrow> PerformanceEntry list" where
  "PerformanceEntryReporter_getEntriesByName s out t n = out @ buffer_queryByName (buffers s t) n"

definition clearEntries :: "PerformanceState \<Rightarrow> PerformanceEntryType \<Rightarrow> PerformanceState" where
  "clearEntries s t =
     s\<lparr>buffers := (buffers s)(t := buffer_clear (buffers s t)),
       markIndex := (if t = MARK then (\<lambda>_. None) else markIndex s)\<rparr>"

definition clearEntriesByName ::
  "PerformanceState \<Rightarrow> PerformanceEntryType \<Rightarrow> string \<Rightarrow> PerformanceState" where
  "clearEntriesByName s t n =
     s\<lparr>buffers := (buffers s)(t := buffer_clearByName (buffers s t) n),
       markIndex := (if t = MARK then (markIndex s)(n := None) else markIndex s)\<rparr>"

text \<open>
  Modelled from the spec (section 4.4), the observer's own operations. Multiple mode replaces
  the subscription set and ignores threshold and buffering. Single mode subscribes to one type
  with its options and, if \<open>buffered\<close>, immediately enqueues the entries the reporter retains
  for that type. \<open>takeRecords\<close> drains the pending queue. \<open>disconnect\<close> unsubscribes from all
  types and the registry stops routing to the observer.
\<close>

definition PerformanceObserver_observeMultiple ::
  "PerformanceState \<Rightarrow> nat \<Rightarrow> PerformanceEntryType set \<Rightarrow> PerformanceState" where
  "PerformanceObserver_observeMultiple s i types =
     s\<lparr>observers := (observers s)(i := (observers s i)\<lparr>observedTypes := types,
                                                       typeOptions := (\<lambda>_. None)\<rparr>),
       observerRegistry := insert i (observerRegistry s)\<rparr>"

definition PerformanceObserver_observeSingle ::
  "PerformanceState \<Rightarrow> nat \<Rightarrow> PerformanceEntryType \<Rightarrow> PerformanceObserverObserveSingleOptions
     \<Rightarrow> PerformanceState" where
  "PerformanceObserver_observeSingle s i t opts =
     (let ob = observers s i;
          ob1 = ob\<lparr>observedTypes := insert t (observedTypes ob),
                   typeOptions := (typeOptions ob)(t \<mapsto> opts)\<rparr>;
          ob2 = (if opt_buffered opts
                 then foldl enqueue ob1 (buffer_queryAll (buffers s t))
                 else ob1)
      in s\<lparr>observers := (observers s)(i := ob2),
           observerRegistry := insert i (observerRegistry s)\<rparr>)"

definition PerformanceObserver_takeRecords ::
  "PerformanceState \<Rightarrow> nat \<Rightarrow> PerformanceEntry list \<times> PerformanceState" where
  "PerformanceObserver_takeRecords s i =
     (pending (observers s i),
      s\<lparr>observers := (observers s)(i := (observers s i)\<lparr>pending := []\<rparr>)\<rparr>)"

definition PerformanceObserver_getDroppedEntriesCount :: "PerformanceState \<Rightarrow> nat \<Rightarrow> nat" where
  "PerformanceObserver_getDroppedEntriesCount s i = droppedEntriesCount (observers s i)"

definition PerformanceObserver_disconnect :: "PerformanceState \<Rightarrow> nat \<Rightarrow> PerformanceState" where
  "PerformanceObserver_disconnect s i =
     s\<lparr>observers := (observers s)(i := (observers s i)\<lparr>observedTypes := {}\<rparr>),
       observerRegistry := observerRegistry s - {i}\<rparr>"

section \<open>The native module\<close>

subsection \<open>Anonymous-namespace helpers\<close>

text \<open>
  \<^verbatim>\<open>sortEntries\<close> is \<^verbatim>\<open>std::stable_sort\<close> with \<^verbatim>\<open>PerformanceEntrySorter\<close>. Modelled from the spec
  (section 4.2, "stable sort by startTime ascending"): the comparator, declared outside the
  source file, orders two entries by \<open>startTime\<close>. The library sort is rendered as an
  insertion sort that places an element before the first later element that is not smaller,
  so that equivalent elements keep their order, as \<^verbatim>\<open>std::stable_sort\<close> guarantees.
\<close>

definition PerformanceEntrySorter :: "PerformanceEntry \<Rightarrow> PerformanceEntry \<Rightarrow> bool" where
  "PerformanceEntrySorter lhs rhs = (startTime lhs < startTime rhs)"

primrec stable_insert :: "('a \<Rightarrow> 'a \<Rightarrow> bool) \<Rightarrow> 'a \<Rightarrow> 'a list \<Rightarrow> 'a list" where
  "stable_insert lt x [] = [x]"
| "stable_insert lt x (y # ys) = (if lt y x then y # stable_insert lt x ys else x # y # ys)"

definition stable_sort :: "('a \<Rightarrow> 'a \<Rightarrow> bool) \<Rightarrow> 'a list \<Rightarrow> 'a list" where
  "stable_sort lt xs = foldr (stable_insert lt) xs []"

definition sortEntries :: "PerformanceEntry list \<Rightarrow> PerformanceEntry list" where
  "sortEntries es = stable_sort PerformanceEntrySorter es"

definition toNativePerformanceEntry :: "PerformanceEntry \<Rightarrow> NativePerformanceEntry" where
  "toNativePerformanceEntry entry =
     (let nativeEntry =
            \<lparr>native_name = name entry,
             native_entryType = entryType entry,
             native_startTime = startTime entry,
             native_duration = duration entry,
             native_processingStart = None,
             native_processingEnd = None,
             native_interactionId = None,
             native_fetchStart = None,
             native_requestStart = None,
             native_connectStart = None,
             native_connectEnd = None,
             native_responseStart = None,
             native_responseEnd = None,
             native_responseStatus = None\<rparr>;
          nativeEntry1 =
            (case entry of
               PerformanceEventTiming _ _ _ ps pe iid \<Rightarrow>
                 nativeEntry\<lparr>native_processingStart := Some ps,
                             native_processingEnd := Some pe,
                             native_interactionId := Some iid\<rparr>
             | _ \<Rightarrow> nativeEntry)
      in (case entry of
            PerformanceResourceTiming _ _ _ fs rqs cs ce rs re rst \<Rightarrow>
              nativeEntry1\<lparr>native_fetchStart := Some fs,
                           native_requestStart := Some rqs,
                           native_connectStart := Some cs,
                           native_connectEnd := Some ce,
                           native_responseStart := Some rs,
                           native_responseEnd := Some re,
                           native_responseStatus := Some rst\<rparr>
          | _ \<Rightarrow> nativeEntry1))"

definition toNativePerformanceEntries :: "PerformanceEntry list \<Rightarrow> NativePerformanceEntry list" where
  "toNativePerformanceEntries es = map toNativePerformanceEntry es"

definition ENTRY_TYPES_AVAILABLE_FROM_TIMELINE :: "PerformanceEntryType list" where
  "ENTRY_TYPES_AVAILABLE_FROM_TIMELINE = [MARK, MEASURE]"

definition isAvailableFromTimeline :: "PerformanceEntryType \<Rightarrow> bool" where
  "isAvailableFromTimeline t = (t = MARK \<or> t = MEASURE)"

text \<open>
  \<^verbatim>\<open>jsi::Object\<close> belongs to the runtime bridge, which is not part of the source file. An
  observer handle is such an object, and the module only looks at its native state: absent,
  a \<^verbatim>\<open>PerformanceObserverWrapper\<close> holding the shared observer (what \<^verbatim>\<open>createObserver\<close>
  attaches), or a native state of another class (a foreign handle). \<open>hasNativeState\<close> tells
  whether a state is attached. \<open>getNativeState\<close> yields the attached state; the source makes
  this call behind the guard \<open>hasNativeState\<close> in \<^verbatim>\<open>tryGetObserver\<close>, and a call on an object
  with no native state, which that guard excludes, is an outcome of its own
  (\<open>NativeStateMissing\<close>), so that a caller without the guard is visible. The dynamic cast of
  an attached state yields the wrapper, or the null pointer for a state of another class.
\<close>

datatype NativeState = PerformanceObserverWrapper (observer: nat) | OtherNativeState

datatype jsi_Failure = NativeStateMissing

record jsi_Object =
  nativeState :: "NativeState option"

definition hasNativeState :: "jsi_Object \<Rightarrow> bool" where
  "hasNativeState obj = (nativeState obj \<noteq> None)"

definition getNativeState :: "jsi_Object \<Rightarrow> jsi_Failure + NativeState" where
  "getNativeState obj =
     (case nativeState obj of
        Some st \<Rightarrow> Inr st
      | None \<Rightarrow> Inl NativeStateMissing)"

fun dynamic_pointer_cast_PerformanceObserverWrapper :: "NativeState \<Rightarrow> NativeState option" where
  "dynamic_pointer_cast_PerformanceObserverWrapper (PerformanceObserverWrapper ob) =
     Some (PerformanceObserverWrapper ob)"
| "dynamic_pointer_cast_PerformanceObserverWrapper OtherNativeState = None"

text \<open>
  \<^verbatim>\<open>tryGetObserver\<close> returns the null pointer when no native state is attached and reads the
  state otherwise; behind the guard the read yields a state (\<open>getNativeState_guarded\<close> below),
  so the function has no failing outcome.
\<close>

definition tryGetObserver :: "jsi_Object \<Rightarrow> nat option" where
  "tryGetObserver observerObj =
     (if \<not> hasNativeState observerObj then None
      else (case getNativeState observerObj of
              Inr st \<Rightarrow>
                (case dynamic_pointer_cast_PerformanceObserverWrapper st of
                   Some observerWrapper \<Rightarrow> Some (observer observerWrapper)
                 | None \<Rightarrow> None)
            | Inl _ \<Rightarrow> None))"

subsection \<open>Clock, marks and measures\<close>

text \<open>
  A thrown \<^verbatim>\<open>jsi::JSError\<close> is the left summand of the result and carries its message; every
  operation that can throw returns the state next to the result, so that what a failing call
  leaves behind is explicit. \<open>clock\<close> is the reading \<^verbatim>\<open>HighResTimeStamp::now()\<close> of the external
  clock at the time of the call.
\<close>

datatype JSError = JSError (message: string)

definition value_or :: "'a option \<Rightarrow> 'a \<Rightarrow> 'a" where
  "value_or v d = (case v of Some x \<Rightarrow> x | None \<Rightarrow> d)"

definition now :: "PerformanceState \<Rightarrow> HighResTimeStamp \<Rightarrow> HighResTimeStamp" where
  "now s clock = value_or (forcedCurrentTimeStamp s) clock"

definition setCurrentTimeStampForTesting ::
  "PerformanceState \<Rightarrow> HighResTimeStamp \<Rightarrow> PerformanceState" where
  "setCurrentTimeStampForTesting s ts = s\<lparr>forcedCurrentTimeStamp := Some ts\<rparr>"

definition markWithResult ::
  "PerformanceState \<Rightarrow> HighResTimeStamp \<Rightarrow> string \<Rightarrow> HighResTimeStamp option
     \<Rightarrow> HighResTimeStamp \<times> PerformanceState" where
  "markWithResult s clock nameArg startTimeArg =
     (let (entry, s') = reportMark s nameArg (value_or startTimeArg (now s clock))
      in (startTime entry, s'))"

definition markDoesNotExist :: "string \<Rightarrow> JSError" where
  "markDoesNotExist m = JSError (''The mark '' @ [CHR 0x27] @ m @ [CHR 0x27] @ '' does not exist.'')"

text \<open>
  \<^verbatim>\<open>NativePerformance::measure\<close> (named \<open>measure_np\<close>, \<open>measure\<close> being taken): the two
  \<open>if\<close>-chains that set \<^verbatim>\<open>startTimeValue\<close> and \<^verbatim>\<open>endTimeValue\<close>, then the report.
\<close>

definition measure_startTimeValue ::
  "PerformanceState \<Rightarrow> HighResTimeStamp option \<Rightarrow> string option \<Rightarrow> JSError + HighResTimeStamp" where
  "measure_startTimeValue s startTimeArg startMark =
     (case startTimeArg of
        Some st \<Rightarrow> Inr st
      | None \<Rightarrow>
          (case startMark of
             Some m \<Rightarrow>
               (case getMarkTime s m of
                  Some startMarkBufferedTime \<Rightarrow> Inr startMarkBufferedTime
                | None \<Rightarrow> Inl (markDoesNotExist m))
           | None \<Rightarrow> Inr (fromDOMHighResTimeStamp 0)))"

definition measure_endTimeValue ::
  "PerformanceState \<Rightarrow> HighResTimeStamp \<Rightarrow> HighResTimeStamp \<Rightarrow> HighResTimeStamp option
     \<Rightarrow> HighResDuration option \<Rightarrow> string option \<Rightarrow> JSError + HighResTimeStamp" where
  "measure_endTimeValue s clock startTimeValue endTimeArg durationArg endMark =
     (case endTimeArg of
        Some en \<Rightarrow> Inr en
      | None \<Rightarrow>
          (case durationArg of
             Some d \<Rightarrow> Inr (startTimeValue + d)
           | None \<Rightarrow>
               (case endMark of
                  Some m \<Rightarrow>
                    (case getMarkTime s m of
                       Some endMarkBufferedTime \<Rightarrow> Inr endMarkBufferedTime
                     | None \<Rightarrow> Inl (markDoesNotExist m))
                | None \<Rightarrow> Inr (now s clock))))"

definition measure_np ::
  "PerformanceState \<Rightarrow> HighResTimeStamp \<Rightarrow> string \<Rightarrow> HighResTimeStamp option
     \<Rightarrow> HighResTimeStamp option \<Rightarrow> HighResDuration option \<Rightarrow> string option \<Rightarrow> string option
     \<Rightarrow> (JSError + HighResTimeStamp \<times> HighResDuration) \<times> PerformanceState" where
  "measure_np s clock nameArg startTimeArg endTimeArg durationArg startMark endMark =
     (case measure_startTimeValue s startTimeArg startMark of
        Inl err \<Rightarrow> (Inl err, s)
      | Inr startTimeValue \<Rightarrow>
          (case measure_endTimeValue s clock startTimeValue endTimeArg durationArg endMark of
             Inl err \<Rightarrow> (Inl err, s)
           | Inr endTimeValue \<Rightarrow>
               (let (entry, s') = reportMeasure s nameArg startTimeValue endTimeValue
                in (Inr (startTime entry, duration entry), s'))))"

text \<open>
  \<^verbatim>\<open>NativePerformance::measureWithResult\<close>: \<^verbatim>\<open>startTimeValue\<close> and \<^verbatim>\<open>endTimeValue\<close> are computed
  as in the source, and the report is made, as in the source, from the parameters
  \<^verbatim>\<open>startTime\<close> and \<^verbatim>\<open>endTime\<close>.
\<close>

definition measureWithResult_startTimeValue ::
  "PerformanceState \<Rightarrow> HighResTimeStamp \<Rightarrow> string option \<Rightarrow> JSError + HighResTimeStamp" where
  "measureWithResult_startTimeValue s startTimeArg startMark =
     (case startMark of
        Some m \<Rightarrow>
          (case getMarkTime s m of
             Some startMarkBufferedTime \<Rightarrow> Inr startMarkBufferedTime
           | None \<Rightarrow> Inl (markDoesNotExist m))
      | None \<Rightarrow> Inr startTimeArg)"

definition measureWithResult_endTimeValue ::
  "PerformanceState \<Rightarrow> HighResTimeStamp \<Rightarrow> HighResTimeStamp \<Rightarrow> HighResTimeStamp
     \<Rightarrow> HighResDuration option \<Rightarrow> string option \<Rightarrow> JSError + HighResTimeStamp" where
  "measureWithResult_endTimeValue s clock startTimeValue endTimeArg durationArg endMark =
     (case endMark of
        Some m \<Rightarrow>
          (case getMarkTime s m of
             Some endMarkBufferedTime \<Rightarrow> Inr endMarkBufferedTime
           | None \<Rightarrow> Inl (markDoesNotExist m))
      | None \<Rightarrow>
          (case durationArg of
             Some d \<Rightarrow> Inr (startTimeValue + d)
           | None \<Rightarrow>
               (if endTimeArg < startTimeValue then Inr (now s clock) else Inr endTimeArg)))"

definition measureWithResult ::
  "PerformanceState \<Rightarrow> HighResTimeStamp \<Rightarrow> string \<Rightarrow> HighResTimeStamp \<Rightarrow> HighResTimeStamp
     \<Rightarrow> HighResDuration option \<Rightarrow> string option \<Rightarrow> string option
     \<Rightarrow> (JSError + HighResTimeStamp \<times> HighResDuration) \<times> PerformanceState" where
  "measureWithResult s clock nameArg startTimeArg endTimeArg durationArg startMark endMark =
     (case measureWithResult_startTimeValue s startTimeArg startMark of
        Inl err \<Rightarrow> (Inl err, s)
      | Inr startTimeValue \<Rightarrow>
          (case measureWithResult_endTimeValue s clock startTimeValue endTimeArg durationArg
                  endMark of
             Inl err \<Rightarrow> (Inl err, s)
           | Inr endTimeValue \<Rightarrow>
               (let (entry, s') = reportMeasure s nameArg startTimeArg endTimeArg
                in (Inr (startTime entry, duration entry), s'))))"

definition clearMarks :: "PerformanceState \<Rightarrow> string option \<Rightarrow> PerformanceState" where
  "clearMarks s entryName =
     (case entryName of
        Some n \<Rightarrow> clearEntriesByName s MARK n
      | None \<Rightarrow> clearEntries s MARK)"

definition clearMeasures :: "PerformanceState \<Rightarrow> string option \<Rightarrow> PerformanceState" where
  "clearMeasures s entryName =
     (case entryName of
        Some n \<Rightarrow> clearEntriesByName s MEASURE n
      | None \<Rightarrow> clearEntries s MEASURE)"

subsection \<open>Timeline queries\<close>

text \<open>
  Each query fills the vector \<^verbatim>\<open>entries\<close> from the reporter, sorts it and converts it. The
  filling is named on its own (\<open>gatherEntries\<close>, \<open>gatherEntriesByName\<close>,
  \<open>gatherEntriesByType\<close>), so that the order in which entries are gathered can be stated.
\<close>

definition gatherEntries :: "PerformanceState \<Rightarrow> PerformanceEntry list" where
  "gatherEntries s =
     foldl (\<lambda>es t. PerformanceEntryReporter_getEntries s es t) []
       ENTRY_TYPES_AVAILABLE_FROM_TIMELINE"

definition getEntries :: "PerformanceState \<Rightarrow> NativePerformanceEntry list" where
  "getEntries s = toNativePerformanceEntries (sortEntries (gatherEntries s))"

definition gatherEntriesByName ::
  "PerformanceState \<Rightarrow> string \<Rightarrow> PerformanceEntryType option \<Rightarrow> PerformanceEntry list" where
  "gatherEntriesByName s entryName entryTypeArg =
     (case entryTypeArg of
        Some t \<Rightarrow>
          (if isAvailableFromTimeline t
           then PerformanceEntryReporter_getEntriesByName s [] t entryName
           else [])
      | None \<Rightarrow>
          foldl (\<lambda>es t. PerformanceEntryReporter_getEntriesByName s es t entryName) []
            ENTRY_TYPES_AVAILABLE_FROM_TIMELINE)"

definition getEntriesByName ::
  "PerformanceState \<Rightarrow> string \<Rightarrow> PerformanceEntryType option \<Rightarrow> NativePerformanceEntry list" where
  "getEntriesByName s entryName entryTypeArg =
     toNativePerformanceEntries (sortEntries (gatherEntriesByName s entryName entryTypeArg))"

definition gatherEntriesByType ::
  "PerformanceState \<Rightarrow> PerformanceEntryType \<Rightarrow> PerformanceEntry list" where
  "gatherEntriesByType s t =
     (if isAvailableFromTimeline t then PerformanceEntryReporter_getEntries s [] t else [])"

definition getEntriesByType ::
  "PerformanceState \<Rightarrow> PerformanceEntryType \<Rightarrow> NativePerformanceEntry list" where
  "getEntriesByType s t = toNativePerformanceEntries (sortEntries (gatherEntriesByType s t))"

subsection \<open>Observer handles\<close>

text \<open>
  The options of \<^verbatim>\<open>observe\<close>. The bridge hands the entry types over as raw numbers and the code
  converts them to \<^verbatim>\<open>PerformanceEntryType\<close>; that marshalling is outside the model and the
  options carry entry types.
\<close>

record NativePerformancePerformanceObserverObserveOptions =
  options_type :: "PerformanceEntryType option"
  options_entryTypes :: "PerformanceEntryType list option"
  options_buffered :: "bool option"
  options_durationThreshold :: "HighResDuration option"

definition getDroppedEntriesCount :: "PerformanceState \<Rightarrow> jsi_Object \<Rightarrow> nat" where
  "getDroppedEntriesCount s observerObj =
     (case tryGetObserver observerObj of
        None \<Rightarrow> 0
      | Some ob \<Rightarrow> PerformanceObserver_getDroppedEntriesCount s ob)"

definition observe ::
  "PerformanceState \<Rightarrow> jsi_Object \<Rightarrow> NativePerformancePerformanceObserverObserveOptions
     \<Rightarrow> PerformanceState" where
  "observe s observerObj options =
     (case tryGetObserver observerObj of
        None \<Rightarrow> s
      | Some ob \<Rightarrow>
          (let durationThreshold =
                 value_or (options_durationThreshold options) HighResDuration_zero
           in (case options_entryTypes options of
                 Some rawTypes \<Rightarrow> PerformanceObserver_observeMultiple s ob (set rawTypes)
               | None \<Rightarrow>
                   (let buffered = value_or (options_buffered options) False
                    in (case options_type options of
                          Some t \<Rightarrow>
                            PerformanceObserver_observeSingle s ob t
                              \<lparr>opt_buffered = buffered,
                               opt_durationThreshold = durationThreshold\<rparr>
                        | None \<Rightarrow> s)))))"

text \<open>
  \<^verbatim>\<open>disconnect\<close> and \<^verbatim>\<open>takeRecords\<close> read the native state without the guard of
  \<^verbatim>\<open>tryGetObserver\<close>; what the read yields on an object with no native state is their
  outcome, and the state is then as it was.
\<close>

definition disconnect ::
  "PerformanceState \<Rightarrow> jsi_Object \<Rightarrow> (jsi_Failure + unit) \<times> PerformanceState" where
  "disconnect s observerObj =
     (case getNativeState observerObj of
        Inl failure \<Rightarrow> (Inl failure, s)
      | Inr st \<Rightarrow>
          (case dynamic_pointer_cast_PerformanceObserverWrapper st of
             None \<Rightarrow> (Inr (), s)
           | Some observerWrapper \<Rightarrow>
               (Inr (), PerformanceObserver_disconnect s (observer observerWrapper))))"

definition takeRecords ::
  "PerformanceState \<Rightarrow> jsi_Object \<Rightarrow> bool
     \<Rightarrow> (jsi_Failure + NativePerformanceEntry list) \<times> PerformanceState" where
  "takeRecords s observerObj sortArg =
     (case getNativeState observerObj of
        Inl failure \<Rightarrow> (Inl failure, s)
      | Inr st \<Rightarrow>
          (case dynamic_pointer_cast_PerformanceObserverWrapper st of
             None \<Rightarrow> (Inr [], s)
           | Some observerWrapper \<Rightarrow>
               (let (records, s') = PerformanceObserver_takeRecords s (observer observerWrapper)
                in (Inr (toNativePerformanceEntries
                           (if sortArg then sortEntries records else records)), s'))))"

subsection \<open>Fixtures\<close>

text \<open>
  A freshly started process: empty buffers of capacity \<open>cap\<close>, an empty mark-name index, no
  forced timestamp, and observers that are idle with a queue bound of \<open>bound\<close>.
\<close>

definition idleObserver :: "nat \<Rightarrow> PerformanceObserver" where
  "idleObserver bound =
     \<lparr>observedTypes = {}, typeOptions = (\<lambda>_. None), pending = [], queueBound = bound,
      droppedEntriesCount = 0\<rparr>"

definition initialState :: "nat \<Rightarrow> nat \<Rightarrow> PerformanceState" where
  "initialState cap bound =
     \<lparr>forcedCurrentTimeStamp = None,
      buffers = (\<lambda>_. \<lparr>entries = [], capacity = cap, droppedCount = 0\<rparr>),
      markIndex = (\<lambda>_. None),
      observerRegistry = {},
      observers = (\<lambda>_. idleObserver bound)\<rparr>"

subsection \<open>Sequences of calls\<close>

text \<open>
  The calls of the module that change the state, and what a sequence of them leaves behind.
  Each call is paired with the reading of the external clock at the time it is made. The
  queries (\<open>now\<close>, \<open>getEntries\<close>, \<open>getEntriesByName\<close>, \<open>getEntriesByType\<close>,
  \<open>getDroppedEntriesCount\<close>) do not change the state and are not listed.
\<close>

datatype Call =
    Call_markWithResult string "HighResTimeStamp option"
  | Call_measure string "HighResTimeStamp option" "HighResTimeStamp option"
      "HighResDuration option" "string option" "string option"
  | Call_measureWithResult string HighResTimeStamp HighResTimeStamp
      "HighResDuration option" "string option" "string option"
  | Call_clearMarks "string option"
  | Call_clearMeasures "string option"
  | Call_observe jsi_Object NativePerformancePerformanceObserverObserveOptions
  | Call_disconnect jsi_Object
  | Call_takeRecords jsi_Object bool
  | Call_setCurrentTimeStampForTesting HighResTimeStamp

fun perform :: "PerformanceState \<Rightarrow> HighResTimeStamp \<Rightarrow> Call \<Rightarrow> PerformanceState" where
  "perform s clock (Call_markWithResult n st) = snd (markWithResult s clock n st)"
| "perform s clock (Call_measure n st en d sm em) = snd (measure_np s clock n st en d sm em)"
| "perform s clock (Call_measureWithResult n st en d sm em) =
     snd (measureWithResult s clock n st en d sm em)"
| "perform s clock (Call_clearMarks n) = clearMarks s n"
| "perform s clock (Call_clearMeasures n) = clearMeasures s n"
| "perform s clock (Call_observe obj options) = observe s obj options"
| "perform s clock (Call_disconnect obj) = snd (disconnect s obj)"
| "perform s clock (Call_takeRecords obj sortArg) = snd (takeRecords s obj sortArg)"
| "perform s clock (Call_setCurrentTimeStampForTesting ts) = setCurrentTimeStampForTesting s ts"

fun performAll :: "PerformanceState \<Rightarrow> (HighResTimeStamp \<times> Call) list \<Rightarrow> PerformanceState" where
  "performAll s [] = s"
| "performAll s ((clock, c) # cs) = performAll (perform s clock c) cs"

fun isSetCurrentTimeStampForTesting :: "Call \<Rightarrow> bool" where
  "isSetCurrentTimeStampForTesting (Call_setCurrentTimeStampForTesting _) = True"
| "isSetCurrentTimeStampForTesting _ = False"

subsection \<open>Properties of states and results\<close>

text \<open>
  Every buffer holds entries of its own type only: the reporter appends an entry to the
  buffer of the entry's type (section 2 of the spec), so this holds of every state the
  reporter produces.
\<close>

definition allEntryTypes :: "PerformanceEntryType list" where
  "allEntryTypes = [MARK, MEASURE, EVENT, RESOURCE]"

definition buffersWellTyped :: "PerformanceState \<Rightarrow> bool" where
  "buffersWellTyped s =
     list_all (\<lambda>t. list_all (\<lambda>e. entryType e = t) (entries (buffers s t))) allEntryTypes"

text \<open>
  A result is the stable sort by \<open>startTime\<close> of the gathered entries: ascending start times,
  the same entries, and for every start time the entries that carry it in the order in which
  they were gathered.
\<close>

definition stablySortedFrom ::
  "PerformanceEntry list \<Rightarrow> NativePerformanceEntry list \<Rightarrow> bool" where
  "stablySortedFrom gathered result =
     (sorted (map native_startTime result)
      \<and> mset result = mset (map toNativePerformanceEntry gathered)
      \<and> (\<forall>k. filter (\<lambda>x. native_startTime x = k) result =
              map toNativePerformanceEntry (filter (\<lambda>e. startTime e = k) gathered)))"

section \<open>Auxiliary facts\<close>

subsection \<open>Sorting and conversion\<close>

lemma stable_insert_insort:
  "stable_insert PerformanceEntrySorter x xs = insort_key startTime x xs"
  by (induction xs) (auto simp: PerformanceEntrySorter_def)

lemma sortEntries_sort_key: "sortEntries es = sort_key startTime es"
  by (induction es) (simp_all add: sortEntries_def stable_sort_def stable_insert_insort)

lemma set_sortEntries: "set (sortEntries es) = set es"
  by (simp add: sortEntries_sort_key)

lemma native_common_fields:
  "native_name (toNativePerformanceEntry e) = name e"
  "native_entryType (toNativePerformanceEntry e) = entryType e"
  "native_startTime (toNativePerformanceEntry e) = startTime e"
  "native_duration (toNativePerformanceEntry e) = duration e"
  by (cases e; simp add: toNativePerformanceEntry_def)+

lemma stablySortedFrom_sortEntries:
  "stablySortedFrom g (toNativePerformanceEntries (sortEntries g))"
proof -
  have m: "map native_startTime (map toNativePerformanceEntry xs) = map startTime xs" for xs
    by (simp add: native_common_fields)
  have f: "filter (\<lambda>x. native_startTime x = k) (map toNativePerformanceEntry xs)
           = map toNativePerformanceEntry (filter (\<lambda>e. startTime e = k) xs)" for k xs
    by (simp add: filter_map comp_def native_common_fields)
  show ?thesis
    unfolding stablySortedFrom_def toNativePerformanceEntries_def sortEntries_sort_key
    by (simp only: m f sorted_sort_key sort_key_stable mset_map mset_sort) simp
qed

subsection \<open>What the timeline queries gather\<close>

lemma gatherEntries_eq:
  "gatherEntries s = entries (buffers s MARK) @ entries (buffers s MEASURE)"
  by (simp add: gatherEntries_def ENTRY_TYPES_AVAILABLE_FROM_TIMELINE_def
      PerformanceEntryReporter_getEntries_def buffer_queryAll_def)

lemma gatherEntriesByName_eq:
  "gatherEntriesByName s n None =
     filter (\<lambda>e. name e = n) (entries (buffers s MARK))
     @ filter (\<lambda>e. name e = n) (entries (buffers s MEASURE))"
  by (simp add: gatherEntriesByName_def ENTRY_TYPES_AVAILABLE_FROM_TIMELINE_def
      PerformanceEntryReporter_getEntriesByName_def buffer_queryByName_def)

lemma buffersWellTyped_iff:
  "buffersWellTyped s \<longleftrightarrow> (\<forall>t. \<forall>e \<in> set (entries (buffers s t)). entryType e = t)"
proof -
  have "t \<in> set allEntryTypes" for t
    by (cases t) (simp_all add: allEntryTypes_def)
  then have "set allEntryTypes = UNIV" by blast
  then show ?thesis by (simp add: buffersWellTyped_def list_all_iff)
qed

lemma gathered_types:
  assumes "buffersWellTyped s"
  shows "\<forall>e \<in> set (gatherEntries s). isAvailableFromTimeline (entryType e)"
    and "\<forall>e \<in> set (gatherEntriesByType s t). isAvailableFromTimeline (entryType e)"
    and "\<forall>e \<in> set (gatherEntriesByName s n ot). isAvailableFromTimeline (entryType e)"
proof -
  from assms have w: "\<And>t e. e \<in> set (entries (buffers s t)) \<Longrightarrow> entryType e = t"
    by (simp add: buffersWellTyped_iff)
  show "\<forall>e \<in> set (gatherEntries s). isAvailableFromTimeline (entryType e)"
    by (auto simp: gatherEntries_eq isAvailableFromTimeline_def dest: w)
  show "\<forall>e \<in> set (gatherEntriesByType s t). isAvailableFromTimeline (entryType e)"
    by (auto simp: gatherEntriesByType_def PerformanceEntryReporter_getEntries_def
        buffer_queryAll_def dest: w)
  show "\<forall>e \<in> set (gatherEntriesByName s n ot). isAvailableFromTimeline (entryType e)"
  proof (cases ot)
    case None
    then show ?thesis
      by (auto simp: gatherEntriesByName_eq isAvailableFromTimeline_def dest: w)
  next
    case (Some t')
    then show ?thesis
      by (auto simp: gatherEntriesByName_def PerformanceEntryReporter_getEntriesByName_def
          buffer_queryByName_def dest: w)
  qed
qed

subsection \<open>The three outcomes of a measure call\<close>

lemma getMarkTime_markWithResult:
  "getMarkTime (snd (markWithResult s clock x (Some t))) x = Some t"
  by (simp add: markWithResult_def reportMark_def getMarkTime_def value_or_def Let_def)

lemma measure_np_failing_start:
  "measure_startTimeValue s startTimeArg startMark = Inl err \<Longrightarrow>
   measure_np s clock n startTimeArg endTimeArg durationArg startMark endMark = (Inl err, s)"
  by (simp add: measure_np_def)

lemma measure_np_failing_end:
  "measure_startTimeValue s startTimeArg startMark = Inr sv \<Longrightarrow>
   measure_endTimeValue s clock sv endTimeArg durationArg endMark = Inl err \<Longrightarrow>
   measure_np s clock n startTimeArg endTimeArg durationArg startMark endMark = (Inl err, s)"
  by (simp add: measure_np_def)

lemma measure_np_reporting:
  "measure_startTimeValue s startTimeArg startMark = Inr sv \<Longrightarrow>
   measure_endTimeValue s clock sv endTimeArg durationArg endMark = Inr ev \<Longrightarrow>
   measure_np s clock n startTimeArg endTimeArg durationArg startMark endMark =
     (Inr (sv, ev - sv), reportEntry s (PerformanceMeasure n sv (ev - sv)))"
  by (simp add: measure_np_def reportMeasure_def Let_def)

lemma measureWithResult_failing_start:
  "measureWithResult_startTimeValue s startTimeArg startMark = Inl err \<Longrightarrow>
   measureWithResult s clock n startTimeArg endTimeArg durationArg startMark endMark
     = (Inl err, s)"
  by (simp add: measureWithResult_def)

lemma measureWithResult_failing_end:
  "measureWithResult_startTimeValue s startTimeArg startMark = Inr sv \<Longrightarrow>
   measureWithResult_endTimeValue s clock sv endTimeArg durationArg endMark = Inl err \<Longrightarrow>
   measureWithResult s clock n startTimeArg endTimeArg durationArg startMark endMark
     = (Inl err, s)"
  by (simp add: measureWithResult_def)

lemma measureWithResult_reporting:
  "measureWithResult_startTimeValue s startTimeArg startMark = Inr sv \<Longrightarrow>
   measureWithResult_endTimeValue s clock sv endTimeArg durationArg endMark = Inr ev \<Longrightarrow>
   measureWithResult s clock n startTimeArg endTimeArg durationArg startMark endMark =
     (Inr (startTimeArg, endTimeArg - startTimeArg),
      reportEntry s (PerformanceMeasure n startTimeArg (endTimeArg - startTimeArg)))"
  by (simp add: measureWithResult_def reportMeasure_def Let_def)

lemma measure_startTimeValue_Inl:
  "measure_startTimeValue s startTimeArg startMark = Inl err \<longleftrightarrow>
   startTimeArg = None
   \<and> (\<exists>m. startMark = Some m \<and> getMarkTime s m = None \<and> err = markDoesNotExist m)"
  by (auto simp: measure_startTimeValue_def split: option.splits)

lemma measure_endTimeValue_Inl:
  "measure_endTimeValue s clock sv endTimeArg durationArg endMark = Inl err \<longleftrightarrow>
   endTimeArg = None \<and> durationArg = None
   \<and> (\<exists>m. endMark = Some m \<and> getMarkTime s m = None \<and> err = markDoesNotExist m)"
  by (auto simp: measure_endTimeValue_def split: option.splits)

lemma measureWithResult_startTimeValue_Inl:
  "measureWithResult_startTimeValue s startTimeArg startMark = Inl err \<longleftrightarrow>
   (\<exists>m. startMark = Some m \<and> getMarkTime s m = None \<and> err = markDoesNotExist m)"
  by (auto simp: measureWithResult_startTimeValue_def split: option.splits)

lemma measureWithResult_endTimeValue_Inl:
  "measureWithResult_endTimeValue s clock sv endTimeArg durationArg endMark = Inl err \<longleftrightarrow>
   (\<exists>m. endMark = Some m \<and> getMarkTime s m = None \<and> err = markDoesNotExist m)"
  by (auto simp: measureWithResult_endTimeValue_def split: option.splits)

lemma markDoesNotExist_names_mark: "sublist m (message (markDoesNotExist m))"
proof -
  have "message (markDoesNotExist m)
        = (''The mark '' @ [CHR 0x27]) @ m @ ([CHR 0x27] @ '' does not exist.'')"
    by (simp add: markDoesNotExist_def)
  then show ?thesis unfolding sublist_def by blast
qed

lemma measure_np_cases:
  obtains (start_fails) err where
      "measure_startTimeValue s startTimeArg startMark = Inl err"
      "measure_np s clock n startTimeArg endTimeArg durationArg startMark endMark = (Inl err, s)"
  | (end_fails) sv err where
      "measure_startTimeValue s startTimeArg startMark = Inr sv"
      "measure_endTimeValue s clock sv endTimeArg durationArg endMark = Inl err"
      "measure_np s clock n startTimeArg endTimeArg durationArg startMark endMark = (Inl err, s)"
  | (reports) sv ev where
      "measure_startTimeValue s startTimeArg startMark = Inr sv"
      "measure_endTimeValue s clock sv endTimeArg durationArg endMark = Inr ev"
      "measure_np s clock n startTimeArg endTimeArg durationArg startMark endMark =
         (Inr (sv, ev - sv), reportEntry s (PerformanceMeasure n sv (ev - sv)))"
proof (cases "measure_startTimeValue s startTimeArg startMark")
  case (Inl err)
  then show ?thesis using start_fails measure_np_failing_start by blast
next
  case (Inr sv)
  show ?thesis
  proof (cases "measure_endTimeValue s clock sv endTimeArg durationArg endMark")
    case (Inl err)
    with Inr show ?thesis using end_fails measure_np_failing_end by blast
  next
    case r: (Inr ev)
    with Inr show ?thesis using reports measure_np_reporting by blast
  qed
qed

lemma measureWithResult_cases:
  obtains (start_fails) err where
      "measureWithResult_startTimeValue s startTimeArg startMark = Inl err"
      "measureWithResult s clock n startTimeArg endTimeArg durationArg startMark endMark
         = (Inl err, s)"
  | (end_fails) sv err where
      "measureWithResult_startTimeValue s startTimeArg startMark = Inr sv"
      "measureWithResult_endTimeValue s clock sv endTimeArg durationArg endMark = Inl err"
      "measureWithResult s clock n startTimeArg endTimeArg durationArg startMark endMark
         = (Inl err, s)"
  | (reports) sv ev where
      "measureWithResult_startTimeValue s startTimeArg startMark = Inr sv"
      "measureWithResult_endTimeValue s clock sv endTimeArg durationArg endMark = Inr ev"
      "measureWithResult s clock n startTimeArg endTimeArg durationArg startMark endMark =
         (Inr (startTimeArg, endTimeArg - startTimeArg),
          reportEntry s (PerformanceMeasure n startTimeArg (endTimeArg - startTimeArg)))"
proof (cases "measureWithResult_startTimeValue s startTimeArg startMark")
  case (Inl err)
  then show ?thesis using start_fails measureWithResult_failing_start by blast
next
  case (Inr sv)
  show ?thesis
  proof (cases "measureWithResult_endTimeValue s clock sv endTimeArg durationArg endMark")
    case (Inl err)
    with Inr show ?thesis using end_fails measureWithResult_failing_end by blast
  next
    case r: (Inr ev)
    with Inr show ?thesis using reports measureWithResult_reporting by blast
  qed
qed

subsection \<open>Handles and the forced timestamp\<close>

lemma getNativeState_guarded:
  "hasNativeState obj \<Longrightarrow> \<exists>st. getNativeState obj = Inr st"
  by (auto simp: hasNativeState_def getNativeState_def)


lemma unguarded_reads_fail:
  "nativeState obj = None \<Longrightarrow> disconnect s obj = (Inl NativeStateMissing, s)"
  "nativeState obj = None \<Longrightarrow> takeRecords s obj sortArg = (Inl NativeStateMissing, s)"
  by (simp_all add: disconnect_def takeRecords_def getNativeState_def)

lemma forced_reportEntry: "forcedCurrentTimeStamp (reportEntry s e) = forcedCurrentTimeStamp s"
  by (simp add: reportEntry_def queuePerformanceEntry_def)

lemma forced_perform:
  assumes "\<not> isSetCurrentTimeStampForTesting c"
  shows "forcedCurrentTimeStamp (perform s clock c) = forcedCurrentTimeStamp s"
proof (cases c)
  case (Call_markWithResult n st)
  then show ?thesis
    by (simp add: markWithResult_def reportMark_def Let_def forced_reportEntry)
next
  case (Call_measure n st en d sm em)
  then show ?thesis
    by (simp add: measure_np_def reportMeasure_def Let_def forced_reportEntry
        split: sum.splits)
next
  case (Call_measureWithResult n st en d sm em)
  then show ?thesis
    by (simp add: measureWithResult_def reportMeasure_def Let_def forced_reportEntry
        split: sum.splits)
next
  case (Call_clearMarks n)
  then show ?thesis
    by (simp add: clearMarks_def clearEntries_def clearEntriesByName_def split: option.splits)
next
  case (Call_clearMeasures n)
  then show ?thesis
    by (simp add: clearMeasures_def clearEntries_def clearEntriesByName_def split: option.splits)
next
  case (Call_observe obj options)
  then show ?thesis
    by (simp add: observe_def PerformanceObserver_observeMultiple_def
        PerformanceObserver_observeSingle_def Let_def split: option.splits)
next
  case (Call_disconnect obj)
  then show ?thesis
    by (simp add: disconnect_def PerformanceObserver_disconnect_def
        split: option.splits sum.splits)
next
  case (Call_takeRecords obj sortArg)
  then show ?thesis
    by (simp add: takeRecords_def PerformanceObserver_takeRecords_def Let_def
        split: option.splits sum.splits)
next
  case (Call_setCurrentTimeStampForTesting ts)
  with assms show ?thesis by simp
qed

lemma forced_performAll:
  "\<forall>c \<in> set calls. \<not> isSetCurrentTimeStampForTesting (snd c) \<Longrightarrow>
   forcedCurrentTimeStamp (performAll s calls) = forcedCurrentTimeStamp s"
proof (induction calls arbitrary: s)
  case Nil
  then show ?case by simp
next
  case (Cons a calls)
  obtain clock c where a: "a = (clock, c)" by (cases a)
  with Cons show ?case by (simp add: forced_perform)
qed

subsection \<open>Deliveries and buffer contents\<close>

lemma entries_reportEntry:
  "entries (buffers (reportEntry s e) (entryType e)) =
     (if length (entries (buffers s (entryType e))) < capacity (buffers s (entryType e))
      then entries (buffers s (entryType e)) @ [e]
      else tl (entries (buffers s (entryType e)) @ [e]))"
  by (simp add: reportEntry_def queuePerformanceEntry_def buffer_insert_def Let_def)


subsection \<open>Buffers hold entries of their own type\<close>

lemma set_buffer_insert: "set (entries (buffer_insert b e)) \<subseteq> insert e (set (entries b))"
proof -
  have "set (tl (entries b @ [e])) \<subseteq> set (entries b @ [e])"
    by (cases "entries b") auto
  then have "set (tl (entries b @ [e])) \<subseteq> insert e (set (entries b))" by simp
  then show ?thesis by (simp add: buffer_insert_def Let_def)
qed

lemma buffersWellTyped_initialState: "buffersWellTyped (initialState cap bound)"
  by (simp add: buffersWellTyped_iff initialState_def)

lemma buffersWellTyped_reportEntry:
  assumes "buffersWellTyped s"
  shows "buffersWellTyped (reportEntry s e)"
proof -
  have "entryType x = t" if "x \<in> set (entries (buffers (reportEntry s e) t))" for x t
  proof (cases "t = entryType e")
    case True
    with that have "x \<in> set (entries (buffer_insert (buffers s (entryType e)) e))"
      by (simp add: reportEntry_def queuePerformanceEntry_def)
    with set_buffer_insert have "x = e \<or> x \<in> set (entries (buffers s (entryType e)))" by blast
    with assms True show ?thesis by (auto simp: buffersWellTyped_iff)
  next
    case False
    with that have "x \<in> set (entries (buffers s t))"
      by (simp add: reportEntry_def queuePerformanceEntry_def)
    with assms show ?thesis by (simp add: buffersWellTyped_iff)
  qed
  then show ?thesis by (simp add: buffersWellTyped_iff)
qed

lemma buffersWellTyped_same_buffers:
  "buffers s' = buffers s \<Longrightarrow> buffersWellTyped s \<Longrightarrow> buffersWellTyped s'"
  by (simp add: buffersWellTyped_def)

lemma buffersWellTyped_clear:
  assumes "buffersWellTyped s"
  shows "buffersWellTyped (clearEntries s t)" and "buffersWellTyped (clearEntriesByName s t n)"
proof -
  from assms have w: "\<And>t e. e \<in> set (entries (buffers s t)) \<Longrightarrow> entryType e = t"
    by (simp add: buffersWellTyped_iff)
  show "buffersWellTyped (clearEntries s t)"
    unfolding buffersWellTyped_iff
    by (simp add: clearEntries_def buffer_clear_def w)
  show "buffersWellTyped (clearEntriesByName s t n)"
    unfolding buffersWellTyped_iff
    by (simp add: clearEntriesByName_def buffer_clearByName_def w)
qed


lemma buffersWellTyped_perform:
  assumes "buffersWellTyped s"
  shows "buffersWellTyped (perform s clock c)"
proof (cases c)
  case (Call_markWithResult n st)
  have "buffers (snd (markWithResult s clock n st))
        = buffers (reportEntry s (PerformanceMark n (value_or st (now s clock)) HighResDuration_zero))"
    by (simp add: markWithResult_def reportMark_def Let_def)
  then have "buffersWellTyped (snd (markWithResult s clock n st))"
    using buffersWellTyped_reportEntry[OF assms] by (rule buffersWellTyped_same_buffers)
  with Call_markWithResult show ?thesis by simp
next
  case (Call_measure n st en d sm em)
  show ?thesis
  proof (cases rule: measure_np_cases[of s st sm clock n en d em])
    case (start_fails err)
    with assms Call_measure show ?thesis by simp
  next
    case (end_fails sv err)
    with assms Call_measure show ?thesis by simp
  next
    case (reports sv ev)
    with Call_measure have "perform s clock c = reportEntry s (PerformanceMeasure n sv (ev - sv))"
      by simp
    with assms show ?thesis by (simp only: buffersWellTyped_reportEntry)
  qed
next
  case (Call_measureWithResult n st en d sm em)
  show ?thesis
  proof (cases rule: measureWithResult_cases[of s st sm clock n en d em])
    case (start_fails err)
    with assms Call_measureWithResult show ?thesis by simp
  next
    case (end_fails sv err)
    with assms Call_measureWithResult show ?thesis by simp
  next
    case (reports sv ev)
    with Call_measureWithResult
    have "perform s clock c = reportEntry s (PerformanceMeasure n st (en - st))"
      by simp
    with assms show ?thesis by (simp only: buffersWellTyped_reportEntry)
  qed
next
  case (Call_clearMarks n)
  with assms show ?thesis
    by (simp add: clearMarks_def buffersWellTyped_clear split: option.splits)
next
  case (Call_clearMeasures n)
  with assms show ?thesis
    by (simp add: clearMeasures_def buffersWellTyped_clear split: option.splits)
next
  case (Call_observe obj options)
  have "buffers (observe s obj options) = buffers s"
    by (simp add: observe_def PerformanceObserver_observeMultiple_def
        PerformanceObserver_observeSingle_def Let_def split: option.splits)
  then have "buffersWellTyped (observe s obj options)"
    using assms by (rule buffersWellTyped_same_buffers)
  with Call_observe show ?thesis by simp
next
  case (Call_disconnect obj)
  have "buffers (snd (disconnect s obj)) = buffers s"
    by (simp add: disconnect_def PerformanceObserver_disconnect_def
        split: option.splits sum.splits)
  then have "buffersWellTyped (snd (disconnect s obj))"
    using assms by (rule buffersWellTyped_same_buffers)
  with Call_disconnect show ?thesis by simp
next
  case (Call_takeRecords obj sortArg)
  have "buffers (snd (takeRecords s obj sortArg)) = buffers s"
    by (simp add: takeRecords_def PerformanceObserver_takeRecords_def Let_def
        split: option.splits sum.splits)
  then have "buffersWellTyped (snd (takeRecords s obj sortArg))"
    using assms by (rule buffersWellTyped_same_buffers)
  with Call_takeRecords show ?thesis by simp
next
  case (Call_setCurrentTimeStampForTesting ts)
  have "buffers (setCurrentTimeStampForTesting s ts) = buffers s"
    by (simp add: setCurrentTimeStampForTesting_def)
  then have "buffersWellTyped (setCurrentTimeStampForTesting s ts)"
    using assms by (rule buffersWellTyped_same_buffers)
  with Call_setCurrentTimeStampForTesting show ?thesis by simp
qed

lemma buffersWellTyped_performAll:
  "buffersWellTyped s \<Longrightarrow> buffersWellTyped (performAll s calls)"
proof (induction calls arbitrary: s)
  case Nil
  then show ?case by simp
next
  case (Cons a calls)
  obtain clock c where "a = (clock, c)" by (cases a)
  with Cons show ?case by (simp add: buffersWellTyped_perform)
qed

text \<open>The definitions to unfold when a call is evaluated on concrete arguments.\<close>

lemmas evaluation_defs =
  markWithResult_def reportMark_def reportMeasure_def reportEntry_def
  queuePerformanceEntry_def buffer_insert_def handleEntry_def passesThreshold_def enqueue_def
  getMarkTime_def value_or_def now_def initialState_def idleObserver_def
  HighResDuration_zero_def fromDOMHighResTimeStamp_def
  measure_np_def measure_startTimeValue_def measure_endTimeValue_def
  measureWithResult_def measureWithResult_startTimeValue_def measureWithResult_endTimeValue_def
  getEntries_def gatherEntries_def getEntriesByType_def gatherEntriesByType_def
  getEntriesByName_def gatherEntriesByName_def
  PerformanceEntryReporter_getEntries_def PerformanceEntryReporter_getEntriesByName_def
  buffer_queryAll_def buffer_queryByName_def ENTRY_TYPES_AVAILABLE_FROM_TIMELINE_def
  isAvailableFromTimeline_def sortEntries_def stable_sort_def PerformanceEntrySorter_def
  toNativePerformanceEntries_def toNativePerformanceEntry_def
  observe_def tryGetObserver_def hasNativeState_def getNativeState_def
  PerformanceObserver_observeSingle_def PerformanceObserver_observeMultiple_def
  takeRecords_def PerformanceObserver_takeRecords_def disconnect_def
  PerformanceObserver_disconnect_def getDroppedEntriesCount_def
  PerformanceObserver_getDroppedEntriesCount_def
  setCurrentTimeStampForTesting_def buffersWellTyped_def allEntryTypes_def
  Let_def

section \<open>The claims\<close>

subsection \<open>C1: measureWithResult and its resolved times\<close>

text \<open>
  Claim C1 says that \<open>measureWithResult\<close> lets a start mark override \<open>startTime\<close>, an end mark
  override \<open>endTime\<close>, a duration or the current time replace the end otherwise, and that the
  stored and returned measure is built from these resolved values. The code resolves both
  values and then reports the measure from the two parameters. After \<open>mark("x", 10)\<close>, the
  call with \<open>startTime = 0\<close>, \<open>endTime = 0\<close>, \<open>startMark = "x"\<close> at clock reading 50 resolves
  the start to 10 and the end to 50, yet returns \<open>(0, 0)\<close> and stores a measure that starts at
  0 with duration 0; the claim asks for \<open>(10, 40)\<close>.
\<close>

theorem measureWithResult_reports_unresolved_times:
  "measureWithResult_startTimeValue
      (snd (markWithResult (initialState 8 8) 0 ''x'' (Some 10))) 0 (Some ''x'') = Inr 10
   \<and> measureWithResult_endTimeValue
      (snd (markWithResult (initialState 8 8) 0 ''x'' (Some 10))) 50 10 0 None None = Inr 50
   \<and> fst (measureWithResult (snd (markWithResult (initialState 8 8) 0 ''x'' (Some 10)))
            50 ''m'' 0 0 None (Some ''x'') None) = Inr (0, 0)
   \<and> entries (buffers (snd (measureWithResult
            (snd (markWithResult (initialState 8 8) 0 ''x'' (Some 10)))
            50 ''m'' 0 0 None (Some ''x'') None)) MEASURE) = [PerformanceMeasure ''m'' 0 0]"
  by (simp add: evaluation_defs)

subsection \<open>C2: how measure resolves the start\<close>

text \<open>
  Claim C2: in \<open>measure\<close>, a given \<open>startTime\<close> is the start, also when a start mark is given
  too; otherwise a given start mark is looked up in the mark-name index and its timestamp is
  the start, and the call fails with the mark-not-found error, leaving the state as it was,
  when the mark is absent; otherwise the start is timestamp zero. The measure that is
  reported starts at the resolved start. After \<open>mark("x", 10)\<close>, the call
  \<open>measure("m", startMark = "x", endTime = 20)\<close> returns start 10 and duration 10, in every
  state and at every clock reading.
\<close>

theorem measure_start_priority:
  "measure_startTimeValue s (Some st) startMark = Inr st
   \<and> (getMarkTime s m = Some t \<longrightarrow> measure_startTimeValue s None (Some m) = Inr t)
   \<and> (getMarkTime s m' = None \<longrightarrow>
        measure_startTimeValue s None (Some m') = Inl (markDoesNotExist m')
        \<and> measure_np s clock n None endTimeArg durationArg (Some m') endMark
            = (Inl (markDoesNotExist m'), s))
   \<and> measure_startTimeValue s None None = Inr 0
   \<and> (measure_startTimeValue s startTimeArg sm = Inr sv \<longrightarrow>
      measure_endTimeValue s clock sv endTimeArg durationArg endMark = Inr ev \<longrightarrow>
        measure_np s clock n startTimeArg endTimeArg durationArg sm endMark
          = (Inr (sv, ev - sv), reportEntry s (PerformanceMeasure n sv (ev - sv))))
   \<and> fst (measure_np (snd (markWithResult s clock0 ''x'' (Some 10))) clock ''m''
             None (Some 20) None (Some ''x'') None) = Inr (10, 10)"
proof -
  have "measure_startTimeValue (snd (markWithResult s clock0 ''x'' (Some 10))) None (Some ''x'')
        = Inr 10"
    by (simp add: measure_startTimeValue_def getMarkTime_markWithResult)
  moreover have "measure_endTimeValue s' clock sv' (Some 20) None None = Inr 20" for s' sv'
    by (simp add: measure_endTimeValue_def)
  ultimately have rt: "fst (measure_np (snd (markWithResult s clock0 ''x'' (Some 10))) clock ''m''
             None (Some 20) None (Some ''x'') None) = Inr (10, 10)"
    by (simp add: measure_np_reporting)
  have f: "measure_startTimeValue s None (Some m') = Inl (markDoesNotExist m')"
    if "getMarkTime s m' = None"
    using that by (simp add: measure_startTimeValue_def)
  show ?thesis
    using rt f measure_np_failing_start[of s None "Some m'" "markDoesNotExist m'"]
    by (auto simp: measure_startTimeValue_def fromDOMHighResTimeStamp_def measure_np_reporting)
qed

theorem measure_start_priority_witness:
  "getMarkTime (snd (markWithResult (initialState 8 8) 0 ''x'' (Some 10))) ''x'' = Some 10
   \<and> getMarkTime (snd (markWithResult (initialState 8 8) 0 ''x'' (Some 10))) ''nope'' = None
   \<and> measure_startTimeValue (snd (markWithResult (initialState 8 8) 0 ''x'' (Some 10)))
        None (Some ''x'') = Inr 10
   \<and> measure_endTimeValue (snd (markWithResult (initialState 8 8) 0 ''x'' (Some 10)))
        50 10 (Some 20) None None = Inr 20
   \<and> measure_np (snd (markWithResult (initialState 8 8) 0 ''x'' (Some 10))) 50 ''m''
        None None None (Some ''nope'') None
       = (Inl (markDoesNotExist ''nope''),
          snd (markWithResult (initialState 8 8) 0 ''x'' (Some 10)))
   \<and> fst (measure_np (snd (markWithResult (initialState 8 8) 0 ''x'' (Some 10))) 50 ''m''
        None (Some 20) None (Some ''x'') None) = Inr (10, 10)"
proof -
  have h1: "getMarkTime (snd (markWithResult (initialState 8 8) 0 ''x'' (Some 10))) ''x''
            = Some 10"
    by (simp add: evaluation_defs)
  have h2: "getMarkTime (snd (markWithResult (initialState 8 8) 0 ''x'' (Some 10))) ''nope''
            = None"
    by (simp add: evaluation_defs)
  have h3: "measure_endTimeValue (snd (markWithResult (initialState 8 8) 0 ''x'' (Some 10)))
        50 10 (Some 20) None None = Inr 20"
    by (simp add: measure_endTimeValue_def)
  show ?thesis
    using h1 h2 h3
      measure_start_priority[where s = "snd (markWithResult (initialState 8 8) 0 ''x'' (Some 10))"
        and m = "''x''" and t = 10 and m' = "''nope''" and clock = 50 and n = "''m''"
        and endTimeArg = None and durationArg = None and endMark = None]
      measure_start_priority[where s = "snd (markWithResult (initialState 8 8) 0 ''x'' (Some 10))"
        and m = "''x''" and t = 10 and m' = "''nope''" and clock = 50 and n = "''m''"
        and startTimeArg = None and sm = "Some ''x''" and sv = 10
        and endTimeArg = "Some 20" and durationArg = None and endMark = None and ev = 20]
    by simp
qed

subsection \<open>C3: how measure resolves the end\<close>

text \<open>
  Claim C3: in \<open>measure\<close>, a given \<open>endTime\<close> is the end; otherwise a given duration makes the
  end the resolved start plus the duration; otherwise a given end mark is looked up in the
  mark-name index, and the call fails with the mark-not-found error when it is absent;
  otherwise the end is \<open>now()\<close>, which is the forced timestamp when one is set and the
  external clock otherwise. The measure that is reported ends at the resolved end, and a
  failure to resolve the end fails the call and leaves the state as it was.
\<close>

theorem measure_end_priority:
  "measure_endTimeValue s clock sv (Some en) durationArg endMark = Inr en
   \<and> measure_endTimeValue s clock sv None (Some d) endMark = Inr (sv + d)
   \<and> (getMarkTime s m = Some t \<longrightarrow> measure_endTimeValue s clock sv None None (Some m) = Inr t)
   \<and> (getMarkTime s m' = None \<longrightarrow>
        measure_endTimeValue s clock sv None None (Some m') = Inl (markDoesNotExist m'))
   \<and> measure_endTimeValue s clock sv None None None = Inr (now s clock)
   \<and> now s clock = (case forcedCurrentTimeStamp s of Some ts \<Rightarrow> ts | None \<Rightarrow> clock)
   \<and> (measure_startTimeValue s startTimeArg startMark = Inr sv' \<longrightarrow>
        (measure_endTimeValue s clock sv' endTimeArg da em = Inr ev \<longrightarrow>
           measure_np s clock n startTimeArg endTimeArg da startMark em
             = (Inr (sv', ev - sv'), reportEntry s (PerformanceMeasure n sv' (ev - sv'))))
        \<and> (measure_endTimeValue s clock sv' endTimeArg da em = Inl err \<longrightarrow>
           measure_np s clock n startTimeArg endTimeArg da startMark em = (Inl err, s)))"
  by (auto simp: measure_endTimeValue_def now_def value_or_def measure_np_reporting
      measure_np_failing_end)

theorem measure_end_priority_witness:
  "measure_endTimeValue (snd (markWithResult (initialState 8 8) 0 ''x'' (Some 30))) 50 10
      None None (Some ''x'') = Inr 30
   \<and> measure_endTimeValue (snd (markWithResult (initialState 8 8) 0 ''x'' (Some 30))) 50 10
      None None (Some ''nope'') = Inl (markDoesNotExist ''nope'')
   \<and> measure_np (snd (markWithResult (initialState 8 8) 0 ''x'' (Some 30))) 50 ''m''
      (Some 10) None None None None
     = (Inr (10, 40), reportEntry (snd (markWithResult (initialState 8 8) 0 ''x'' (Some 30)))
                         (PerformanceMeasure ''m'' 10 40))
   \<and> measure_np (snd (markWithResult (initialState 8 8) 0 ''x'' (Some 30))) 50 ''m''
      (Some 10) None None None (Some ''nope'')
     = (Inl (markDoesNotExist ''nope''),
        snd (markWithResult (initialState 8 8) 0 ''x'' (Some 30)))"
proof -
  have h1: "getMarkTime (snd (markWithResult (initialState 8 8) 0 ''x'' (Some 30))) ''x''
            = Some 30"
    by (simp add: evaluation_defs)
  have h2: "getMarkTime (snd (markWithResult (initialState 8 8) 0 ''x'' (Some 30))) ''nope''
            = None"
    by (simp add: evaluation_defs)
  have h3: "measure_startTimeValue (snd (markWithResult (initialState 8 8) 0 ''x'' (Some 30)))
              (Some 10) None = Inr 10"
    by (simp add: measure_startTimeValue_def)
  have h4: "measure_endTimeValue (snd (markWithResult (initialState 8 8) 0 ''x'' (Some 30)))
              50 10 None None None = Inr 50"
    by (simp add: evaluation_defs)
  show ?thesis
    using h1 h2 h3 h4
      measure_end_priority[where s = "snd (markWithResult (initialState 8 8) 0 ''x'' (Some 30))"
        and clock = 50 and sv = 10 and m = "''x''" and t = 30 and m' = "''nope''"
        and startTimeArg = "Some 10" and startMark = None and sv' = 10
        and endTimeArg = None and da = None and em = None and ev = 50 and n = "''m''"]
      measure_end_priority[where s = "snd (markWithResult (initialState 8 8) 0 ''x'' (Some 30))"
        and clock = 50 and sv = 10 and m = "''x''" and t = 30 and m' = "''nope''"
        and startTimeArg = "Some 10" and startMark = None and sv' = 10
        and endTimeArg = None and da = None and em = "Some ''nope''"
        and err = "markDoesNotExist ''nope''" and n = "''m''"]
    by simp
qed

subsection \<open>C4: the failure of a measure call\<close>

text \<open>
  Claim C4, as stated, lets every measure call that names a start or end mark absent from the
  mark-name index fail. In \<open>measure\<close> a mark name is consulted only when nothing of higher
  priority is given, so a call that names an absent mark next to an explicit \<open>startTime\<close>
  (or an absent end mark next to an explicit \<open>endTime\<close> or \<open>duration\<close>) succeeds and records a
  measure.
\<close>

theorem measure_with_unconsulted_missing_mark_succeeds:
  "getMarkTime (initialState 8 8) ''nope'' = None
   \<and> fst (measure_np (initialState 8 8) 0 ''m'' (Some 1) (Some 2) None (Some ''nope'') None)
       = Inr (1, 1)
   \<and> entries (buffers (snd (measure_np (initialState 8 8) 0 ''m'' (Some 1) (Some 2) None
                               (Some ''nope'') None)) MEASURE)
       = [PerformanceMeasure ''m'' 1 1]
   \<and> fst (measure_np (initialState 8 8) 0 ''m'' None (Some 2) None None (Some ''nope''))
       = Inr (0, 2)
   \<and> fst (measure_np (initialState 8 8) 0 ''m'' None None (Some 7) None (Some ''nope''))
       = Inr (0, 7)"
  by (simp add: evaluation_defs)

text \<open>
  Claim C4, amended: a measure call fails when a mark name that it consults is absent from
  the mark-name index. \<open>measure\<close> consults the start mark when no \<open>startTime\<close> is given and the
  end mark when neither \<open>endTime\<close> nor \<open>duration\<close> is given; \<open>measureWithResult\<close> consults
  every mark name it is given. The failure carries the message
  \<open>The mark '<name>' does not exist.\<close>, which contains the name, and leaves the whole state,
  the reporter's included, as it was, so that no measure is recorded. A measure call fails in
  no other way: whenever one fails, the state is unchanged and the error is this one, for a
  consulted mark that is absent.
\<close>

theorem measure_fails_only_on_consulted_missing_mark:
  "(getMarkTime s m = None \<longrightarrow>
      measure_np s clock n None endTimeArg durationArg (Some m) endMark
        = (Inl (markDoesNotExist m), s))
   \<and> (getMarkTime s m = None \<longrightarrow> measure_startTimeValue s startTimeArg startMark = Inr sv \<longrightarrow>
      measure_np s clock n startTimeArg None None startMark (Some m)
        = (Inl (markDoesNotExist m), s))
   \<and> (getMarkTime s m = None \<longrightarrow>
      measureWithResult s clock n st en durationArg (Some m) endMark
        = (Inl (markDoesNotExist m), s))
   \<and> (getMarkTime s m = None \<longrightarrow> measureWithResult_startTimeValue s st startMark = Inr sv' \<longrightarrow>
      measureWithResult s clock n st en durationArg startMark (Some m)
        = (Inl (markDoesNotExist m), s))
   \<and> sublist m (message (markDoesNotExist m))
   \<and> (fst (measure_np s clock n startTimeArg endTimeArg durationArg startMark endMark) = Inl err
       \<longrightarrow>
        snd (measure_np s clock n startTimeArg endTimeArg durationArg startMark endMark) = s
        \<and> (\<exists>x. getMarkTime s x = None \<and> err = markDoesNotExist x
               \<and> (startTimeArg = None \<and> startMark = Some x
                   \<or> endTimeArg = None \<and> durationArg = None \<and> endMark = Some x)))
   \<and> (fst (measureWithResult s clock n st en durationArg startMark endMark) = Inl err' \<longrightarrow>
        snd (measureWithResult s clock n st en durationArg startMark endMark) = s
        \<and> (\<exists>x. getMarkTime s x = None \<and> err' = markDoesNotExist x
               \<and> (startMark = Some x \<or> endMark = Some x)))"
proof (intro conjI impI)
  assume a: "getMarkTime s m = None"
  then show "measure_np s clock n None endTimeArg durationArg (Some m) endMark
        = (Inl (markDoesNotExist m), s)"
    by (simp add: measure_np_failing_start measure_startTimeValue_Inl)
  from a show "measureWithResult s clock n st en durationArg (Some m) endMark
        = (Inl (markDoesNotExist m), s)"
    by (simp add: measureWithResult_failing_start measureWithResult_startTimeValue_Inl)
next
  assume a: "getMarkTime s m = None"
    and b: "measure_startTimeValue s startTimeArg startMark = Inr sv"
  have "measure_endTimeValue s clock sv None None (Some m) = Inl (markDoesNotExist m)"
    using a by (simp add: measure_endTimeValue_Inl)
  with b show "measure_np s clock n startTimeArg None None startMark (Some m)
        = (Inl (markDoesNotExist m), s)"
    by (rule measure_np_failing_end)
next
  assume a: "getMarkTime s m = None"
    and b: "measureWithResult_startTimeValue s st startMark = Inr sv'"
  have "measureWithResult_endTimeValue s clock sv' en durationArg (Some m)
        = Inl (markDoesNotExist m)"
    using a by (simp add: measureWithResult_endTimeValue_Inl)
  with b show "measureWithResult s clock n st en durationArg startMark (Some m)
        = (Inl (markDoesNotExist m), s)"
    by (rule measureWithResult_failing_end)
next
  show "sublist m (message (markDoesNotExist m))" by (rule markDoesNotExist_names_mark)
next
  assume f: "fst (measure_np s clock n startTimeArg endTimeArg durationArg startMark endMark)
             = Inl err"
  show "snd (measure_np s clock n startTimeArg endTimeArg durationArg startMark endMark) = s"
    using f
    by (cases rule: measure_np_cases
          [of s startTimeArg startMark clock n endTimeArg durationArg endMark]) simp_all
  show "\<exists>x. getMarkTime s x = None \<and> err = markDoesNotExist x
               \<and> (startTimeArg = None \<and> startMark = Some x
                   \<or> endTimeArg = None \<and> durationArg = None \<and> endMark = Some x)"
    using f
  proof (cases rule: measure_np_cases
           [of s startTimeArg startMark clock n endTimeArg durationArg endMark])
    case (start_fails e)
    with f have "measure_startTimeValue s startTimeArg startMark = Inl err" by simp
    then show ?thesis unfolding measure_startTimeValue_Inl by blast
  next
    case (end_fails sv e)
    with f have "measure_endTimeValue s clock sv endTimeArg durationArg endMark = Inl err"
      by simp
    then show ?thesis unfolding measure_endTimeValue_Inl by blast
  next
    case (reports sv ev)
    with f show ?thesis by simp
  qed
next
  assume f: "fst (measureWithResult s clock n st en durationArg startMark endMark) = Inl err'"
  show "snd (measureWithResult s clock n st en durationArg startMark endMark) = s"
    using f
    by (cases rule: measureWithResult_cases
          [of s st startMark clock n en durationArg endMark]) simp_all
  show "\<exists>x. getMarkTime s x = None \<and> err' = markDoesNotExist x
               \<and> (startMark = Some x \<or> endMark = Some x)"
    using f
  proof (cases rule: measureWithResult_cases
           [of s st startMark clock n en durationArg endMark])
    case (start_fails e)
    with f have "measureWithResult_startTimeValue s st startMark = Inl err'" by simp
    then show ?thesis unfolding measureWithResult_startTimeValue_Inl by blast
  next
    case (end_fails sv e)
    with f have "measureWithResult_endTimeValue s clock sv en durationArg endMark = Inl err'"
      by simp
    then show ?thesis unfolding measureWithResult_endTimeValue_Inl by blast
  next
    case (reports sv ev)
    with f show ?thesis by simp
  qed
qed

theorem measure_fails_only_on_consulted_missing_mark_witness:
  "getMarkTime (snd (markWithResult (initialState 8 8) 0 ''x'' (Some 10))) ''nope'' = None
   \<and> measure_np (snd (markWithResult (initialState 8 8) 0 ''x'' (Some 10))) 50 ''m''
        None None None (Some ''nope'') None
      = (Inl (markDoesNotExist ''nope''),
         snd (markWithResult (initialState 8 8) 0 ''x'' (Some 10)))
   \<and> measure_np (snd (markWithResult (initialState 8 8) 0 ''x'' (Some 10))) 50 ''m''
        None None None (Some ''x'') (Some ''nope'')
      = (Inl (markDoesNotExist ''nope''),
         snd (markWithResult (initialState 8 8) 0 ''x'' (Some 10)))
   \<and> measureWithResult (snd (markWithResult (initialState 8 8) 0 ''x'' (Some 10))) 50 ''m''
        1 2 None (Some ''nope'') None
      = (Inl (markDoesNotExist ''nope''),
         snd (markWithResult (initialState 8 8) 0 ''x'' (Some 10)))
   \<and> measureWithResult (snd (markWithResult (initialState 8 8) 0 ''x'' (Some 10))) 50 ''m''
        1 2 None (Some ''x'') (Some ''nope'')
      = (Inl (markDoesNotExist ''nope''),
         snd (markWithResult (initialState 8 8) 0 ''x'' (Some 10)))
   \<and> entries (buffers (snd (measure_np
        (snd (markWithResult (initialState 8 8) 0 ''x'' (Some 10))) 50 ''m''
        None None None (Some ''x'') (Some ''nope''))) MEASURE) = []
   \<and> sublist ''nope'' (message (markDoesNotExist ''nope''))"
proof -
  let ?s = "snd (markWithResult (initialState 8 8) 0 ''x'' (Some 10))"
  have h1: "getMarkTime ?s ''nope'' = None"
    by (simp add: evaluation_defs)
  have h2: "measure_startTimeValue ?s None (Some ''x'') = Inr 10"
    by (simp add: evaluation_defs)
  have h3: "measureWithResult_startTimeValue ?s 1 (Some ''x'') = Inr 10"
    by (simp add: evaluation_defs)
  have h4: "fst (measure_np ?s 50 ''m'' None None None (Some ''x'') (Some ''nope''))
            = Inl (markDoesNotExist ''nope'')"
    by (simp add: evaluation_defs)
  have h5: "fst (measureWithResult ?s 50 ''m'' 1 2 None (Some ''x'') (Some ''nope''))
            = Inl (markDoesNotExist ''nope'')"
    by (simp add: evaluation_defs)
  have h6: "entries (buffers ?s MEASURE) = []"
    by (simp add: evaluation_defs)
  show ?thesis
    using h1 h2 h3 h4 h5 h6
      measure_fails_only_on_consulted_missing_mark
        [where s = ?s and m = "''nope''" and clock = 50 and n = "''m''"
           and endTimeArg = None and durationArg = None and endMark = "Some ''nope''"
           and startTimeArg = None and startMark = "Some ''x''" and sv = 10 and sv' = 10
           and st = 1 and en = 2
           and err = "markDoesNotExist ''nope''" and err' = "markDoesNotExist ''nope''"]
      measure_fails_only_on_consulted_missing_mark
        [where s = ?s and m = "''nope''" and clock = 50 and n = "''m''"
           and endTimeArg = None and durationArg = None and endMark = None
           and st = 1 and en = 2]
    by simp
qed

subsection \<open>C5: the timeline holds marks and measures only\<close>

text \<open>
  Claim C5: \<open>getEntries\<close> aggregates the mark buffer and the measure buffer and nothing else;
  \<open>getEntriesByType\<close> returns the empty sequence for every entry type other than mark and
  measure, and so does \<open>getEntriesByName\<close> when it is given such a type. Consequently, in a
  state whose buffers hold entries of their own type, no result of a timeline query contains
  an event-timing or a resource-timing entry. Every state that the calls of the module reach
  from the initial state is such a state, and recording an entry of any type, event timings
  included, keeps it so.
\<close>

theorem timeline_queries_restricted:
  "getEntries s =
     toNativePerformanceEntries
       (sortEntries (entries (buffers s MARK) @ entries (buffers s MEASURE)))
   \<and> (t \<noteq> MARK \<and> t \<noteq> MEASURE \<longrightarrow>
        getEntriesByType s t = [] \<and> getEntriesByName s n (Some t) = [])
   \<and> (buffersWellTyped s \<longrightarrow>
        (\<forall>x \<in> set (getEntries s) \<union> set (getEntriesByType s t')
                \<union> set (getEntriesByName s n' ot).
           native_entryType x \<noteq> EVENT \<and> native_entryType x \<noteq> RESOURCE))
   \<and> buffersWellTyped (performAll (initialState cap bound) calls)
   \<and> (buffersWellTyped s \<longrightarrow> buffersWellTyped (reportEntry s e))"
proof (intro conjI impI)
  show "getEntries s =
     toNativePerformanceEntries
       (sortEntries (entries (buffers s MARK) @ entries (buffers s MEASURE)))"
    by (simp add: getEntries_def gatherEntries_eq)
next
  assume "t \<noteq> MARK \<and> t \<noteq> MEASURE"
  then have na: "\<not> isAvailableFromTimeline t" by (simp add: isAvailableFromTimeline_def)
  have e: "toNativePerformanceEntries (sortEntries []) = []"
    by (simp add: toNativePerformanceEntries_def sortEntries_def stable_sort_def)
  from na show "getEntriesByType s t = []"
    by (simp add: getEntriesByType_def gatherEntriesByType_def e)
  from na show "getEntriesByName s n (Some t) = []"
    by (simp add: getEntriesByName_def gatherEntriesByName_def e)
next
  assume w: "buffersWellTyped s"
  have k: "\<forall>x \<in> set (toNativePerformanceEntries (sortEntries g)).
              native_entryType x \<noteq> EVENT \<and> native_entryType x \<noteq> RESOURCE"
    if "\<forall>e \<in> set g. isAvailableFromTimeline (entryType e)" for g
    using that
    by (auto simp: toNativePerformanceEntries_def set_sortEntries native_common_fields
        isAvailableFromTimeline_def)
  show "\<forall>x \<in> set (getEntries s) \<union> set (getEntriesByType s t')
                \<union> set (getEntriesByName s n' ot).
           native_entryType x \<noteq> EVENT \<and> native_entryType x \<noteq> RESOURCE"
    using k[OF gathered_types(1)[OF w]] k[OF gathered_types(2)[OF w, of t']]
      k[OF gathered_types(3)[OF w, of n' ot]]
    unfolding getEntries_def getEntriesByType_def getEntriesByName_def by blast
next
  show "buffersWellTyped (performAll (initialState cap bound) calls)"
    by (rule buffersWellTyped_performAll) (rule buffersWellTyped_initialState)
next
  assume "buffersWellTyped s"
  then show "buffersWellTyped (reportEntry s e)" by (rule buffersWellTyped_reportEntry)
qed

theorem timeline_queries_restricted_witness:
  "buffersWellTyped
     (reportEntry (snd (markWithResult (initialState 8 8) 0 ''a'' (Some 1)))
        (PerformanceEventTiming ''click'' 2 3 2 4 0))
   \<and> entries (buffers
        (reportEntry (snd (markWithResult (initialState 8 8) 0 ''a'' (Some 1)))
           (PerformanceEventTiming ''click'' 2 3 2 4 0)) EVENT)
       = [PerformanceEventTiming ''click'' 2 3 2 4 0]
   \<and> getEntriesByType
        (reportEntry (snd (markWithResult (initialState 8 8) 0 ''a'' (Some 1)))
           (PerformanceEventTiming ''click'' 2 3 2 4 0)) EVENT = []
   \<and> getEntriesByName
        (reportEntry (snd (markWithResult (initialState 8 8) 0 ''a'' (Some 1)))
           (PerformanceEventTiming ''click'' 2 3 2 4 0)) ''click'' (Some EVENT) = []
   \<and> getEntriesByName
        (reportEntry (snd (markWithResult (initialState 8 8) 0 ''a'' (Some 1)))
           (PerformanceEventTiming ''click'' 2 3 2 4 0)) ''click'' None = []
   \<and> map native_entryType (getEntries
        (reportEntry (snd (markWithResult (initialState 8 8) 0 ''a'' (Some 1)))
           (PerformanceEventTiming ''click'' 2 3 2 4 0))) = [MARK]
   \<and> map native_name (getEntries
        (reportEntry (snd (markWithResult (initialState 8 8) 0 ''a'' (Some 1)))
           (PerformanceEventTiming ''click'' 2 3 2 4 0))) = [''a'']"
proof -
  let ?s = "reportEntry (snd (markWithResult (initialState 8 8) 0 ''a'' (Some 1)))
              (PerformanceEventTiming ''click'' 2 3 2 4 0)"
  have h1: "buffersWellTyped ?s"
    by (simp add: evaluation_defs)
  have h2: "entries (buffers ?s EVENT) = [PerformanceEventTiming ''click'' 2 3 2 4 0]"
    by (simp add: evaluation_defs)
  have h3: "map native_name (getEntries ?s) = [''a'']"
    by (simp add: evaluation_defs)
  have h4: "map native_entryType (getEntries ?s) = [MARK]"
    by (simp add: evaluation_defs)
  have h5: "getEntriesByName ?s ''click'' None = []"
    by (simp add: evaluation_defs)
  show ?thesis
    using h1 h2 h3 h4 h5
      timeline_queries_restricted
        [where s = ?s and t = EVENT and n = "''click''" and t' = MARK and n' = "''click''"
           and ot = None]
    by simp
qed

subsection \<open>C6: the order of the results\<close>

text \<open>
  Claim C6, as stated, keeps entries with equal \<open>startTime\<close> in the order in which they were
  recorded, and has \<open>getEntries\<close> yield \<open>[B, C, A]\<close> after \<open>A\<close>, \<open>B\<close>, \<open>C\<close> were recorded at
  5, 3 and 3. The sort is stable with respect to the gathered sequence, and \<open>getEntries\<close>
  gathers the mark buffer before the measure buffer: when \<open>A\<close> and \<open>C\<close> are marks and \<open>B\<close> is a
  measure, \<open>C\<close> comes before \<open>B\<close> although \<open>B\<close> was recorded first at the same start time.
\<close>

theorem equal_start_mark_precedes_earlier_measure:
  "map native_name (getEntries (performAll (initialState 8 8)
          [(0, Call_markWithResult ''A'' (Some 5)),
           (0, Call_measure ''B'' (Some 3) (Some 3) None None None),
           (0, Call_markWithResult ''C'' (Some 3))])) = [''C'', ''B'', ''A'']
   \<and> map native_startTime (getEntries (performAll (initialState 8 8)
          [(0, Call_markWithResult ''A'' (Some 5)),
           (0, Call_measure ''B'' (Some 3) (Some 3) None None None),
           (0, Call_markWithResult ''C'' (Some 3))])) = [3, 3, 5]"
  by (simp add: evaluation_defs)

text \<open>
  Claim C6, amended: every sequence returned by \<open>getEntries\<close>, \<open>getEntriesByName\<close>,
  \<open>getEntriesByType\<close>, and by \<open>takeRecords\<close> when sorting is requested, is the stable sort by
  \<open>startTime\<close> of the gathered entries: ascending start times, a permutation of the gathered
  entries, and entries with equal \<open>startTime\<close> in the order in which they were gathered.
  A query for one type (\<open>getEntriesByType\<close>, \<open>getEntriesByName\<close> with a type) gathers that
  type's buffer, filtered by name where a name is given, in buffer order; a buffer appends a
  recorded entry at its tail; so in these queries entries with equal \<open>startTime\<close> keep their
  recording order. The cross-type queries (\<open>getEntries\<close>, \<open>getEntriesByName\<close> without a
  type) gather the mark buffer first and the measure buffer second, each in buffer order; so
  entries of one type with equal \<open>startTime\<close> keep their recording order, and a mark precedes
  a measure with the same \<open>startTime\<close>. \<open>takeRecords\<close> sorts the observer's pending queue.
  Recording the marks \<open>A\<close> at 5, \<open>B\<close> at 3 and \<open>C\<close> at 3, in that order, makes \<open>getEntries\<close>
  yield \<open>[B, C, A]\<close>; recording the measures \<open>x\<close> from 3 to 4, \<open>x\<close> from 3 to 9 and \<open>x\<close>
  from 1 to 3 makes the single-type queries yield them with the durations 2, 1, 6.
\<close>

theorem query_results_stably_sorted:
  "stablySortedFrom (gatherEntries s) (getEntries s)
   \<and> stablySortedFrom (gatherEntriesByName s n ot) (getEntriesByName s n ot)
   \<and> stablySortedFrom (gatherEntriesByType s t) (getEntriesByType s t)
   \<and> fst (takeRecords s \<lparr>nativeState = Some (PerformanceObserverWrapper i)\<rparr> True)
       = Inr (toNativePerformanceEntries (sortEntries (pending (observers s i))))
   \<and> stablySortedFrom (pending (observers s i))
        (toNativePerformanceEntries (sortEntries (pending (observers s i))))
   \<and> gatherEntries s = entries (buffers s MARK) @ entries (buffers s MEASURE)
   \<and> gatherEntriesByName s n None =
        filter (\<lambda>e. name e = n) (entries (buffers s MARK))
        @ filter (\<lambda>e. name e = n) (entries (buffers s MEASURE))
   \<and> gatherEntriesByType s t =
        (if t = MARK \<or> t = MEASURE then entries (buffers s t) else [])
   \<and> gatherEntriesByName s n (Some t) =
        (if t = MARK \<or> t = MEASURE
         then filter (\<lambda>e. name e = n) (entries (buffers s t)) else [])
   \<and> entries (buffers (reportEntry s e) (entryType e)) =
       (if length (entries (buffers s (entryType e))) < capacity (buffers s (entryType e))
        then entries (buffers s (entryType e)) @ [e]
        else tl (entries (buffers s (entryType e)) @ [e]))
   \<and> map native_name (getEntries (performAll (initialState 8 8)
          [(0, Call_markWithResult ''A'' (Some 5)), (0, Call_markWithResult ''B'' (Some 3)),
           (0, Call_markWithResult ''C'' (Some 3))])) = [''B'', ''C'', ''A'']
   \<and> map native_duration (getEntriesByType (performAll (initialState 8 8)
          [(0, Call_measure ''x'' (Some 3) (Some 4) None None None),
           (0, Call_measure ''x'' (Some 3) (Some 9) None None None),
           (0, Call_measure ''x'' (Some 1) (Some 3) None None None)]) MEASURE) = [2, 1, 6]
   \<and> map native_duration (getEntriesByName (performAll (initialState 8 8)
          [(0, Call_measure ''x'' (Some 3) (Some 4) None None None),
           (0, Call_measure ''x'' (Some 3) (Some 9) None None None),
           (0, Call_measure ''x'' (Some 1) (Some 3) None None None)]) ''x'' (Some MEASURE))
       = [2, 1, 6]"
proof -
  have tr: "fst (takeRecords s \<lparr>nativeState = Some (PerformanceObserverWrapper i)\<rparr> True)
        = Inr (toNativePerformanceEntries (sortEntries (pending (observers s i))))"
    by (simp add: takeRecords_def getNativeState_def PerformanceObserver_takeRecords_def)
  have ex1: "map native_name (getEntries (performAll (initialState 8 8)
          [(0, Call_markWithResult ''A'' (Some 5)), (0, Call_markWithResult ''B'' (Some 3)),
           (0, Call_markWithResult ''C'' (Some 3))])) = [''B'', ''C'', ''A'']"
    by (simp add: evaluation_defs)
  have ex2: "map native_duration (getEntriesByType (performAll (initialState 8 8)
          [(0, Call_measure ''x'' (Some 3) (Some 4) None None None),
           (0, Call_measure ''x'' (Some 3) (Some 9) None None None),
           (0, Call_measure ''x'' (Some 1) (Some 3) None None None)]) MEASURE) = [2, 1, 6]"
    by (simp add: evaluation_defs)
  have ex3: "map native_duration (getEntriesByName (performAll (initialState 8 8)
          [(0, Call_measure ''x'' (Some 3) (Some 4) None None None),
           (0, Call_measure ''x'' (Some 3) (Some 9) None None None),
           (0, Call_measure ''x'' (Some 1) (Some 3) None None None)]) ''x'' (Some MEASURE))
       = [2, 1, 6]"
    by (simp add: evaluation_defs)
  have bt: "gatherEntriesByType s t =
        (if t = MARK \<or> t = MEASURE then entries (buffers s t) else [])"
    by (simp add: gatherEntriesByType_def isAvailableFromTimeline_def
        PerformanceEntryReporter_getEntries_def buffer_queryAll_def)
  have bn: "gatherEntriesByName s n (Some t) =
        (if t = MARK \<or> t = MEASURE
         then filter (\<lambda>e. name e = n) (entries (buffers s t)) else [])"
    by (simp add: gatherEntriesByName_def isAvailableFromTimeline_def
        PerformanceEntryReporter_getEntriesByName_def buffer_queryByName_def)
  have st: "stablySortedFrom (gatherEntries s) (getEntries s)"
    "stablySortedFrom (gatherEntriesByName s n ot) (getEntriesByName s n ot)"
    "stablySortedFrom (gatherEntriesByType s t) (getEntriesByType s t)"
    by (simp_all add: getEntries_def getEntriesByName_def getEntriesByType_def
        stablySortedFrom_sortEntries)
  from tr ex1 ex2 ex3 bt bn st show ?thesis
    using entries_reportEntry[of s e] stablySortedFrom_sortEntries[of "pending (observers s i)"]
      gatherEntries_eq[of s] gatherEntriesByName_eq[of s n]
    by (intro conjI)
qed

subsection \<open>C7: handles that do not resolve\<close>

text \<open>
  Claim C7 says that on a handle that does not resolve to an observer no operation fails:
  \<open>takeRecords\<close> returns the empty sequence, \<open>getDroppedEntriesCount\<close> returns 0, and
  \<open>observe\<close> and \<open>disconnect\<close> do nothing. \<open>getDroppedEntriesCount\<close> and \<open>observe\<close> go
  through \<^verbatim>\<open>tryGetObserver\<close>, which checks \<open>hasNativeState\<close> first, and are neutral on every
  such handle. \<open>disconnect\<close> and \<open>takeRecords\<close> read the native state without that check:
  they are neutral on a handle that carries a native state of another class, but on a handle
  with no native state their outcome is that of the unguarded read, not the neutral default
  the claim asks for. In every case the state is left as it was.
\<close>

theorem unguarded_native_state_read:
  "tryGetObserver \<lparr>nativeState = None\<rparr> = None
   \<and> getDroppedEntriesCount s \<lparr>nativeState = None\<rparr> = 0
   \<and> observe s \<lparr>nativeState = None\<rparr> options = s
   \<and> disconnect s \<lparr>nativeState = None\<rparr> = (Inl NativeStateMissing, s)
   \<and> takeRecords s \<lparr>nativeState = None\<rparr> sortArg = (Inl NativeStateMissing, s)
   \<and> tryGetObserver \<lparr>nativeState = Some OtherNativeState\<rparr> = None
   \<and> getDroppedEntriesCount s \<lparr>nativeState = Some OtherNativeState\<rparr> = 0
   \<and> observe s \<lparr>nativeState = Some OtherNativeState\<rparr> options = s
   \<and> disconnect s \<lparr>nativeState = Some OtherNativeState\<rparr> = (Inr (), s)
   \<and> takeRecords s \<lparr>nativeState = Some OtherNativeState\<rparr> sortArg = (Inr [], s)"
proof -
  have n: "tryGetObserver \<lparr>nativeState = None\<rparr> = None"
    by (simp add: tryGetObserver_def hasNativeState_def)
  have f: "tryGetObserver \<lparr>nativeState = Some OtherNativeState\<rparr> = None"
    by (simp add: tryGetObserver_def hasNativeState_def getNativeState_def)
  have g: "getDroppedEntriesCount s obj = 0 \<and> observe s obj options = s"
    if "tryGetObserver obj = None" for obj
    using that by (simp add: getDroppedEntriesCount_def observe_def)
  have u: "disconnect s \<lparr>nativeState = None\<rparr> = (Inl NativeStateMissing, s)"
    "takeRecords s \<lparr>nativeState = None\<rparr> sortArg = (Inl NativeStateMissing, s)"
    by (simp_all add: unguarded_reads_fail)
  have o: "disconnect s \<lparr>nativeState = Some OtherNativeState\<rparr> = (Inr (), s)"
    "takeRecords s \<lparr>nativeState = Some OtherNativeState\<rparr> sortArg = (Inr [], s)"
    by (simp_all add: disconnect_def takeRecords_def getNativeState_def)
  from n f g[OF n] g[OF f] u o show ?thesis by simp
qed

subsection \<open>C8: observe without entry types\<close>

text \<open>
  Claim C8: a call to \<open>observe\<close> whose options carry neither a list of entry types nor a
  single type does nothing, also on a handle that resolves to an observer: no subscription
  is created or replaced and the state, the observer's included, is unchanged.
\<close>

theorem observe_without_types_is_noop:
  assumes "options_entryTypes options = None" and "options_type options = None"
  shows "observe s observerObj options = s"
  using assms by (simp add: observe_def split: option.splits)

theorem observe_without_types_is_noop_witness:
  "tryGetObserver \<lparr>nativeState = Some (PerformanceObserverWrapper 0)\<rparr> = Some 0
   \<and> observe (initialState 8 8) \<lparr>nativeState = Some (PerformanceObserverWrapper 0)\<rparr>
        \<lparr>options_type = None, options_entryTypes = None,
         options_buffered = Some True, options_durationThreshold = Some 5\<rparr> = initialState 8 8"
  using observe_without_types_is_noop
    [where options = "\<lparr>options_type = None, options_entryTypes = None,
         options_buffered = Some True, options_durationThreshold = Some 5\<rparr>"
       and s = "initialState 8 8"
       and observerObj = "\<lparr>nativeState = Some (PerformanceObserverWrapper 0)\<rparr>"]
  by (simp add: tryGetObserver_def hasNativeState_def getNativeState_def)

subsection \<open>C9: the forced timestamp\<close>

text \<open>
  Claim C9: after \<open>setCurrentTimeStampForTesting(ts)\<close>, \<open>now()\<close> returns \<open>ts\<close>, whatever the
  external clock reads, and keeps doing so after any sequence of other calls of the module;
  when no forced timestamp is set, as in the initial state and after any sequence of calls
  other than \<open>setCurrentTimeStampForTesting\<close>, \<open>now()\<close> returns the reading of the external
  clock.
\<close>

theorem forced_timestamp_short_circuits_now:
  "now (setCurrentTimeStampForTesting s ts) clock = ts
   \<and> ((\<forall>c \<in> set calls. \<not> isSetCurrentTimeStampForTesting (snd c)) \<longrightarrow>
        now (performAll (setCurrentTimeStampForTesting s ts) calls) clock = ts)
   \<and> (forcedCurrentTimeStamp s' = None \<longrightarrow> now s' clock = clock)
   \<and> ((\<forall>c \<in> set calls'. \<not> isSetCurrentTimeStampForTesting (snd c)) \<longrightarrow>
        now (performAll (initialState cap bound) calls') clock = clock)"
proof -
  have "forcedCurrentTimeStamp (setCurrentTimeStampForTesting s ts) = Some ts"
    by (simp add: setCurrentTimeStampForTesting_def)
  moreover have "forcedCurrentTimeStamp (initialState cap bound) = None"
    by (simp add: initialState_def)
  ultimately show ?thesis
    by (simp add: now_def value_or_def forced_performAll)
qed

theorem forced_timestamp_short_circuits_now_witness:
  "now (performAll (setCurrentTimeStampForTesting (initialState 8 8) 42)
          [(1, Call_markWithResult ''a'' None),
           (2, Call_measure ''m'' None None None (Some ''a'') None),
           (3, Call_clearMarks None)]) 4 = 42
   \<and> now (initialState 8 8) 4 = 4
   \<and> now (performAll (initialState 8 8)
          [(1, Call_markWithResult ''a'' None),
           (2, Call_measure ''m'' None None None (Some ''a'') None)]) 4 = 4"
  using forced_timestamp_short_circuits_now
    [where s = "initialState 8 8" and ts = 42 and clock = 4 and s' = "initialState 8 8"
       and cap = 8 and bound = 8
       and calls = "[(1, Call_markWithResult ''a'' None),
           (2, Call_measure ''m'' None None None (Some ''a'') None),
           (3, Call_clearMarks None)]"
       and calls' = "[(1, Call_markWithResult ''a'' None),
           (2, Call_measure ''m'' None None None (Some ''a'') None)]"]
  by (simp add: initialState_def)

subsection \<open>C10: the defaults of a single-mode observe\<close>



end
